theory Spec2Isabelle
  imports Main "HOL-Library.AList"
begin

section \<open>Exceptions\<close>

text \<open>
  Every \<^verbatim>\<open>raise\<close> of the two source files is a value of \<open>error\<close>. A constructor is the
  Python exception class; its argument is the message as the source writes it. Where the
  source formats an object into the message with \<^verbatim>\<open>%s\<close> or \<^verbatim>\<open>{}\<close>, the argument is the
  format string itself, the placeholders left in place: how a tensor or a dictionary prints
  is not decided by these sources.
\<close>

datatype error =
    ValueError string
  | NotFittedError string
  | NotImplementedError string
  | KeyError string
  | AttributeError string
  | IndexError
  | TypeError
  | OutOfRangeError

fun is_ValueError :: "error + 'a \<Rightarrow> bool" where
  "is_ValueError (Inl (ValueError _)) = True"
| "is_ValueError _ = False"

fun is_NotFittedError :: "error + 'a \<Rightarrow> bool" where
  "is_NotFittedError (Inl (NotFittedError _)) = True"
| "is_NotFittedError _ = False"

section \<open>Python helpers\<close>

text \<open>Evaluating a comprehension whose element may raise: the first exception wins.\<close>

fun collect :: "('a \<Rightarrow> error + 'b) \<Rightarrow> 'a list \<Rightarrow> error + 'b list" where
  "collect f [] = Inr []"
| "collect f (x # xs) =
     (case f x of
        Inl e \<Rightarrow> Inl e
      | Inr y \<Rightarrow> (case collect f xs of Inl e \<Rightarrow> Inl e | Inr ys \<Rightarrow> Inr (y # ys)))"

text \<open>\<^verbatim>\<open>sep.join(parts)\<close>\<close>

fun join :: "string \<Rightarrow> string list \<Rightarrow> string" where
  "join sep [] = []"
| "join sep [p] = p"
| "join sep (p # q # ps) = p @ sep @ join sep (q # ps)"

section \<open>learn\_io/pandas\_io.py\<close>

text \<open>
  pandas and numpy are libraries outside the repository. A data frame is modelled by what
  \<^verbatim>\<open>extract_pandas_data\<close> observes of it: its columns in order, each with its label and
  the name of its dtype, and \<^verbatim>\<open>data.values\<close>. Labels are strings, so \<^verbatim>\<open>str(column)\<close>
  is the label. Two columns may carry the same label: pandas allows it. The cast
  \<^verbatim>\<open>ndarray.astype\<close> is a parameter.
\<close>

record 'arr DataFrame =
  columns :: "(string \<times> string) list"
  frame_values :: 'arr

datatype ('arr, 'o) pydata =
    Frame "'arr DataFrame"
  | NdArray 'arr
  | Other 'o

text \<open>
  \<^verbatim>\<open>for column in data\<close> visits the labels of the columns in order, a repeated label
  once for each of its columns.
\<close>

definition column_labels :: "'arr DataFrame \<Rightarrow> string list" where
  "column_labels df = map fst (columns df)"

text \<open>
  \<^verbatim>\<open>data[column].dtype.name\<close>. For a label that one column carries, \<^verbatim>\<open>data[column]\<close>
  is that column, a \<^verbatim>\<open>Series\<close> with a dtype. For a label that several columns carry it is
  the \<^verbatim>\<open>DataFrame\<close> of these columns, which has no attribute \<^verbatim>\<open>dtype\<close>: AttributeError.
  A label no column carries is a KeyError.
\<close>

definition dtype_name :: "'arr DataFrame \<Rightarrow> string \<Rightarrow> error + string" where
  "dtype_name df column =
     (case filter (\<lambda>(label, dtype). label = column) (columns df) of
        [] \<Rightarrow> Inl (KeyError column)
      | [(label, dtype)] \<Rightarrow> Inr dtype
      | _ \<Rightarrow> Inl (AttributeError ''dtype''))"

definition PANDAS_DTYPES :: "(string \<times> string) list" where
  "PANDAS_DTYPES =
    [(''int8'', ''int''), (''int16'', ''int''), (''int32'', ''int''), (''int64'', ''int''),
     (''uint8'', ''int''), (''uint16'', ''int''), (''uint32'', ''int''), (''uint64'', ''int''),
     (''float16'', ''float''), (''float32'', ''float''), (''float64'', ''float''),
     (''bool'', ''i'')]"

text \<open>\<^verbatim>\<open>key in PANDAS_DTYPES\<close>: membership among the keys of the dictionary.\<close>

definition in_PANDAS_DTYPES :: "string \<Rightarrow> bool" where
  "in_PANDAS_DTYPES name = (map_of PANDAS_DTYPES name \<noteq> None)"

text \<open>
  The comprehension \<^verbatim>\<open>[column for column in data if data[column].dtype.name not in
  PANDAS_DTYPES]\<close>: the condition is evaluated for one column after the other, and an
  exception it raises ends the comprehension.
\<close>

fun bad_columns :: "'arr DataFrame \<Rightarrow> string list \<Rightarrow> error + string list" where
  "bad_columns df [] = Inr []"
| "bad_columns df (column # cs) =
     (case dtype_name df column of
        Inl e \<Rightarrow> Inl e
      | Inr name \<Rightarrow>
          (case bad_columns df cs of
             Inl e \<Rightarrow> Inl e
           | Inr bad \<Rightarrow> Inr (if \<not> in_PANDAS_DTYPES name then column # bad else bad)))"

definition extract_pandas_data ::
  "(string \<Rightarrow> 'arr \<Rightarrow> 'arr) \<Rightarrow> ('arr, 'o) pydata \<Rightarrow> error + ('arr, 'o) pydata" where
  "extract_pandas_data astype data =
    (case data of
       Frame df \<Rightarrow>
         (case bad_columns df (column_labels df) of
            Inl e \<Rightarrow> Inl e
          | Inr bad_data \<Rightarrow>
              if bad_data = [] then Inr (NdArray (astype ''float'' (frame_values df)))
              else
                (case collect (\<lambda>column.
                         case dtype_name df column of
                           Inl e \<Rightarrow> Inl e
                         | Inr name \<Rightarrow>
                             Inr ([CHR 0x27] @ column @ [CHR 0x27] @ '' type='' @ [CHR 0x27]
                                    @ name @ [CHR 0x27])) bad_data of
                   Inl e \<Rightarrow> Inl e
                 | Inr error_report \<Rightarrow>
                     Inl (ValueError
                       (''Data types for extracting pandas data must be int, float, or bool. Found: ''
                          @ join '', '' error_report))))
     | _ \<Rightarrow> Inr data)"

text \<open>The keys of \<^verbatim>\<open>PANDAS_DTYPES\<close>, as a set.\<close>

definition listed_dtype_names :: "string set" where
  "listed_dtype_names =
     {''int8'', ''int16'', ''int32'', ''int64'', ''uint8'', ''uint16'', ''uint32'', ''uint64'',
      ''float16'', ''float32'', ''float64'', ''bool''}"

section \<open>estimators/estimator.py: the data model\<close>

text \<open>
  The estimator builds graphs out of values of the compute engine (tensors, operations,
  whatever a model function returns). They are one type \<open>'v\<close> here; the sources never
  look inside one, they only hand it to the engine's functions below. A Python value that
  may be \<^verbatim>\<open>None\<close> is an \<open>option\<close>; a dictionary is an association list in insertion
  order, with \<open>map_of\<close> as lookup.
\<close>

datatype ModeKeys = TRAIN | EVAL | INFER

text \<open>Features, targets and predictions: a single tensor or a \<^verbatim>\<open>dict\<close> of named tensors.\<close>

datatype 'v tensors = Tensor 'v | Dict "(string \<times> 'v) list"

text \<open>
  Modelled from the spec: \<^verbatim>\<open>tensor_shape.TensorShape\<close> is declared outside these sources.
  The spec speaks of a loss with "more than one element", of one that has a "single
  element" and of one "already rank-0". A shape is a list of dimensions, each known or
  unknown, or it has unknown rank (\<open>None\<close>). \<open>num_elements\<close> is the product of the
  dimensions when all are known (so \<open>1\<close> at rank 0) and \<open>None\<close> otherwise; two shapes are
  compatible when one has unknown rank, or the ranks agree and every pair of known
  dimensions agrees; \<open>scalar\<close> is the shape of rank 0.
\<close>

datatype TensorShape = TensorShape (dims: "nat option list option")

fun prod_dims :: "nat option list \<Rightarrow> nat option" where
  "prod_dims [] = Some 1"
| "prod_dims (None # ds) = None"
| "prod_dims (Some d # ds) = (case prod_dims ds of None \<Rightarrow> None | Some n \<Rightarrow> Some (d * n))"

definition num_elements :: "TensorShape \<Rightarrow> nat option" where
  "num_elements s = (case dims s of None \<Rightarrow> None | Some ds \<Rightarrow> prod_dims ds)"

fun dims_compatible :: "nat option \<Rightarrow> nat option \<Rightarrow> bool" where
  "dims_compatible (Some a) (Some b) = (a = b)"
| "dims_compatible _ _ = True"

definition is_compatible_with :: "TensorShape \<Rightarrow> TensorShape \<Rightarrow> bool" where
  "is_compatible_with s t =
     (case (dims s, dims t) of
        (Some ds, Some es) \<Rightarrow> list_all2 dims_compatible ds es
      | _ \<Rightarrow> True)"

definition scalar :: TensorShape where
  "scalar = TensorShape (Some [])"

definition rank :: "TensorShape \<Rightarrow> nat option" where
  "rank s = map_option length (dims s)"

text \<open>
  The functions of the compute engine's Python API that \<^verbatim>\<open>_call_model_fn\<close> applies to
  the outputs of a model function: \<^verbatim>\<open>isinstance(_, ops.Operation)\<close>,
  \<^verbatim>\<open>ops.convert_to_tensor\<close>, the attribute \<^verbatim>\<open>.op\<close>, \<^verbatim>\<open>.get_shape()\<close>,
  \<^verbatim>\<open>array_ops.reshape\<close> and \<^verbatim>\<open>contrib_framework.convert_to_tensor_or_sparse_tensor\<close>.
  They are parameters. A collaborator is taken to return: an exception escaping one of them
  would pass through the estimator unchanged (the one the sources catch,
  \<^verbatim>\<open>errors.OutOfRangeError\<close>, is modelled where it is caught).
\<close>

record 'v tf_ops =
  is_Operation :: "'v \<Rightarrow> bool"
  convert_to_tensor :: "'v \<Rightarrow> 'v"
  tensor_op :: "'v \<Rightarrow> 'v"
  get_shape :: "'v \<Rightarrow> TensorShape"
  reshape :: "'v \<Rightarrow> nat list \<Rightarrow> 'v"
  convert_to_tensor_or_sparse_tensor :: "'v \<Rightarrow> 'v"

text \<open>
  What \<^verbatim>\<open>_get_arguments\<close> reads of a Python object: the argument names of its
  \<^verbatim>\<open>__code__\<close> (as \<^verbatim>\<open>inspect.getargspec(func).args\<close> lists them) when it has that
  attribute, its \<^verbatim>\<open>__call__\<close> attribute and its \<^verbatim>\<open>func\<close> attribute, each \<open>None\<close> when
  \<^verbatim>\<open>hasattr\<close> is false. The datatype holds the objects whose chain of such attributes
  ends; on an object whose chain does not end (the method wrappers of a
  \<^verbatim>\<open>functools.partial\<close>) the source recurses up to Python's recursion limit.
\<close>

datatype pyfunc =
  PyFunc (code_args: "string list option") (call_attr: "pyfunc option") (func_attr: "pyfunc option")

text \<open>
  The three ways \<^verbatim>\<open>_call_model_fn\<close> calls the model function:
  \<^verbatim>\<open>model_fn(features, targets)\<close>, \<^verbatim>\<open>model_fn(features, targets, mode=mode)\<close> and
  \<^verbatim>\<open>model_fn(features, targets, mode=mode, params=self.params)\<close>.
\<close>

datatype ('v, 'p) model_call =
    Call_features_targets "'v tensors" "'v tensors option"
  | Call_mode "'v tensors" "'v tensors option" ModeKeys
  | Call_mode_params "'v tensors" "'v tensors option" ModeKeys "'p option"

text \<open>
  A model function: the object \<^verbatim>\<open>_get_arguments\<close> introspects, and what a call returns,
  the triple \<^verbatim>\<open>(predictions, loss, train_op)\<close>.
\<close>

record ('v, 'p) model_function =
  introspect :: pyfunc
  body :: "('v, 'p) model_call \<Rightarrow> 'v tensors option \<times> 'v option \<times> 'v option"

text \<open>
  \<^verbatim>\<open>RunConfig\<close> is declared outside these sources; the fields are those the modelled
  code reads. \<open>execution_mode = None\<close> stands for
  \<^verbatim>\<open>hasattr(self._config, 'execution_mode')\<close> being false.
\<close>

record RunConfig =
  execution_mode :: "string option"
  training_worker_max_startup_secs :: nat
  task :: nat
  training_worker_session_startup_stagger_secs :: nat
  is_chief :: bool

text \<open>
  The fields of \<^verbatim>\<open>BaseEstimator\<close> (\<open>'s\<close> is the type of a tensor signature), and those
  \<^verbatim>\<open>Estimator\<close> adds. \<open>graph\<close> is \<^verbatim>\<open>self._graph\<close>, a graph being named by its number.
\<close>

record 's BaseEstimator =
  model_dir :: string
  config :: RunConfig
  features_info :: "'s option"
  targets_info :: "'s option"
  graph :: "nat option"

record ('s, 'v, 'p) Estimator = "'s BaseEstimator" +
  model_fn :: "('v, 'p) model_function option"
  params :: "'p option"
  feature_engineering_fn :: "'v tensors \<Rightarrow> 'v tensors option \<Rightarrow> 'v tensors \<times> 'v tensors option"

section \<open>estimators/estimator.py: the model function invoker\<close>

fun get_arguments :: "pyfunc \<Rightarrow> string list option" where
  "get_arguments (PyFunc (Some args) c g) = Some args"
| "get_arguments (PyFunc None (Some c) g) = get_arguments c"
| "get_arguments (PyFunc None None (Some g)) = get_arguments g"
| "get_arguments (PyFunc None None None) = None"

definition identity_feature_engineering_fn ::
  "'v tensors \<Rightarrow> 'v tensors option \<Rightarrow> 'v tensors \<times> 'v tensors option" where
  "identity_feature_engineering_fn features targets = (features, targets)"

text \<open>
  \<^verbatim>\<open>_call_model_fn\<close>, in the four parts the source marks: the call (the branches on
  \<^verbatim>\<open>'mode' in model_fn_args\<close> and \<^verbatim>\<open>'params' in model_fn_args\<close>), then the blocks
  commented "Validate train\_op.", "Validate loss." and "Validate predictions.".
\<close>

definition model_fn_call ::
  "string list \<Rightarrow> 'v tensors \<Rightarrow> 'v tensors option \<Rightarrow> ModeKeys \<Rightarrow> 'p option \<Rightarrow> ('v, 'p) model_call" where
  "model_fn_call model_fn_args features targets mode ps =
     (if ''mode'' \<in> set model_fn_args then
        if ''params'' \<in> set model_fn_args then Call_mode_params features targets mode ps
        else Call_mode features targets mode
      else Call_features_targets features targets)"

definition validate_train_op :: "'v tf_ops \<Rightarrow> ModeKeys \<Rightarrow> 'v option \<Rightarrow> error + 'v option" where
  "validate_train_op tf mode train_op =
     (case train_op of
        None \<Rightarrow> if mode = TRAIN then Inl (ValueError ''Missing train_op.'') else Inr None
      | Some t \<Rightarrow>
          if \<not> is_Operation tf t then Inr (Some (tensor_op tf (convert_to_tensor tf t)))
          else Inr (Some t))"

definition validate_loss :: "'v tf_ops \<Rightarrow> ModeKeys \<Rightarrow> 'v option \<Rightarrow> error + 'v option" where
  "validate_loss tf mode loss =
     (case loss of
        None \<Rightarrow> if mode \<in> {TRAIN, EVAL} then Inl (ValueError ''Missing loss.'') else Inr None
      | Some l \<Rightarrow>
          (let loss = convert_to_tensor tf l;
               loss_shape = get_shape tf loss
           in if num_elements loss_shape \<notin> {None, Some 1}
              then Inl (ValueError ''Loss must be scalar: %s.'')
              else if \<not> is_compatible_with loss_shape scalar
                   then Inr (Some (reshape tf loss []))
                   else Inr (Some loss)))"

definition validate_predictions ::
  "'v tf_ops \<Rightarrow> ModeKeys \<Rightarrow> 'v tensors option \<Rightarrow> error + 'v tensors option" where
  "validate_predictions tf mode predictions =
     (case predictions of
        None \<Rightarrow> if mode = INFER then Inl (ValueError ''Missing predictions.'') else Inr None
      | Some (Dict d) \<Rightarrow>
          Inr (Some (Dict (map (\<lambda>(k, v). (k, convert_to_tensor_or_sparse_tensor tf v)) d)))
      | Some (Tensor p) \<Rightarrow> Inr (Some (Tensor (convert_to_tensor_or_sparse_tensor tf p))))"

text \<open>
  \<^verbatim>\<open>'mode' in None\<close> is a TypeError: \<^verbatim>\<open>_get_arguments\<close> falls off its last
  \<^verbatim>\<open>elif\<close> for an object with none of the three attributes, as for \<^verbatim>\<open>model_fn=None\<close>.
\<close>

definition call_model_fn ::
  "'v tf_ops \<Rightarrow> ('s, 'v, 'p, 'z) Estimator_scheme \<Rightarrow> 'v tensors \<Rightarrow> 'v tensors option \<Rightarrow> ModeKeys
     \<Rightarrow> error + ('v tensors option \<times> 'v option \<times> 'v option)" where
  "call_model_fn tf self features0 targets0 mode =
     (case feature_engineering_fn self features0 targets0 of (features, targets) \<Rightarrow>
      case model_fn self of None \<Rightarrow> Inl TypeError | Some f \<Rightarrow>
      case get_arguments (introspect f) of None \<Rightarrow> Inl TypeError | Some model_fn_args \<Rightarrow>
      case body f (model_fn_call model_fn_args features targets mode (params self)) of
        (predictions, loss, train_op) \<Rightarrow>
      case validate_train_op tf mode train_op of Inl e \<Rightarrow> Inl e | Inr train_op \<Rightarrow>
      case validate_loss tf mode loss of Inl e \<Rightarrow> Inl e | Inr loss \<Rightarrow>
      case validate_predictions tf mode predictions of Inl e \<Rightarrow> Inl e | Inr predictions \<Rightarrow>
      Inr (predictions, loss, train_op))"

section \<open>estimators/estimator.py: the input adapter\<close>

text \<open>
  What an input function returns: the pair \<^verbatim>\<open>(features, targets)\<close>, or a value that is
  not a list or tuple, which \<^verbatim>\<open>_get_features_from_input_fn\<close> takes for the features.
\<close>

datatype 'v input_result =
    Features_targets "'v tensors" "'v tensors option"
  | Features_only "'v tensors"

type_synonym 'v input_function = "unit \<Rightarrow> 'v input_result"

text \<open>
  \<^verbatim>\<open>data_feeder.setup_train_data_feeder\<close> and \<^verbatim>\<open>contrib_framework.is_tensor\<close> are
  collaborators. \<open>'x\<close> is the type of the raw arrays \<^verbatim>\<open>x\<close> and \<^verbatim>\<open>y\<close>, \<open>'fd\<close> that
  of a feed function. The feeder is set up with \<^verbatim>\<open>n_classes=None\<close> in every call, so
  that argument is left out.
\<close>

record ('v, 'fd) DataFeeder =
  input_builder :: "'v input_function"
  get_feed_dict_fn :: 'fd

record ('x, 'v, 'fd) input_api =
  is_tensor :: "'x \<Rightarrow> bool"
  setup_train_data_feeder ::
    "'x \<Rightarrow> 'x option \<Rightarrow> nat option \<Rightarrow> bool \<Rightarrow> nat option \<Rightarrow> ('v, 'fd) DataFeeder"

definition get_input_fn ::
  "('x, 'v, 'fd) input_api \<Rightarrow> 'x option \<Rightarrow> 'x option \<Rightarrow> 'v input_function option \<Rightarrow> 'fd option
     \<Rightarrow> nat option \<Rightarrow> bool \<Rightarrow> nat option \<Rightarrow> error + ('v input_function \<times> 'fd option)" where
  "get_input_fn api x y input_fn feed_fn batch_size shuffle epochs =
     (case input_fn of
        None \<Rightarrow>
          (case x of
             None \<Rightarrow> Inl (ValueError ''Either x or input_fn must be provided.'')
           | Some xv \<Rightarrow>
               if is_tensor api xv \<or> (case y of None \<Rightarrow> False | Some yv \<Rightarrow> is_tensor api yv)
               then Inl (ValueError ''Inputs cannot be tensors. Please provide input_fn.'')
               else if feed_fn \<noteq> None
               then Inl (ValueError ''Can not provide both feed_fn and x or y.'')
               else (let df = setup_train_data_feeder api xv y batch_size shuffle epochs
                     in Inr (input_builder df, Some (get_feed_dict_fn df))))
      | Some f \<Rightarrow>
          if x \<noteq> None \<or> y \<noteq> None
          then Inl (ValueError ''Can not provide both input_fn and x or y.'')
          else if batch_size \<noteq> None
          then Inl (ValueError ''Can not provide both input_fn and batch_size.'')
          else Inr (f, feed_fn))"

section \<open>estimators/estimator.py: the signature checker\<close>

text \<open>
  \<^verbatim>\<open>tensor_signature\<close> is a module outside these sources; its three functions are
  parameters. \<^verbatim>\<open>create_signatures\<close> returns an \<open>option\<close>: its result is stored in a
  field that \<^verbatim>\<open>_check_inputs\<close> tests against \<^verbatim>\<open>None\<close>, and nothing here excludes that
  result.
\<close>

record ('v, 's) signature_api =
  tensors_compatible :: "'v tensors \<Rightarrow> 's \<Rightarrow> bool"
  create_signatures :: "'v tensors \<Rightarrow> 's option"
  create_placeholders_from_signatures :: "'s option \<Rightarrow> 'v tensors option"

text \<open>
  \<^verbatim>\<open>_check_inputs\<close> assigns \<^verbatim>\<open>self._features_info\<close> before it looks at the targets, so
  the estimator is returned with the result also when the targets raise.
\<close>

definition check_inputs ::
  "('v, 's) signature_api \<Rightarrow> 'v tensors \<Rightarrow> 'v tensors option \<Rightarrow> ('s, 'z) BaseEstimator_scheme
     \<Rightarrow> (error + unit) \<times> ('s, 'z) BaseEstimator_scheme" where
  "check_inputs api features targets self =
     (case (case features_info self of
              Some info \<Rightarrow>
                if \<not> tensors_compatible api features info
                then Inl (ValueError
                  ''Features are incompatible with given information. Given features: %s, required signatures: %s.'')
                else Inr self
            | None \<Rightarrow> Inr (self\<lparr>features_info := create_signatures api features\<rparr>)) of
        Inl e \<Rightarrow> (Inl e, self)
      | Inr self1 \<Rightarrow>
          (case targets of
             None \<Rightarrow> (Inr (), self1)
           | Some tg \<Rightarrow>
               (case targets_info self1 of
                  Some info \<Rightarrow>
                    if \<not> tensors_compatible api tg info
                    then (Inl (ValueError
                      ''Targets are incompatible with given information. Given targets: %s, required signatures: %s.''),
                          self1)
                    else (Inr (), self1)
                | None \<Rightarrow> (Inr (), self1\<lparr>targets_info := create_signatures api tg\<rparr>))))"

section \<open>estimators/estimator.py: the metrics assembler\<close>

text \<open>
  A key of the \<^verbatim>\<open>metrics\<close> dictionary is a string or a tuple of strings. A metric is a
  \<^verbatim>\<open>MetricSpec\<close>, given by its \<^verbatim>\<open>create_metric_ops(features, targets, predictions)\<close>,
  or a bare function of a prediction and the targets. What a metric returns is a single
  value, or a list or tuple of values.
\<close>

datatype metric_key = Name string | Names "string list"

datatype 'v metric_result = Value 'v | Sequence "'v list"

datatype 'v metric =
    MetricSpec "'v tensors \<Rightarrow> 'v tensors option \<Rightarrow> 'v tensors option \<Rightarrow> 'v metric_result"
  | Metric_fn "'v option \<Rightarrow> 'v tensors option \<Rightarrow> 'v metric_result"

text \<open>\<^verbatim>\<open>d[key]\<close> on a dictionary.\<close>

definition getitem :: "(string \<times> 'a) list \<Rightarrow> string \<Rightarrow> error + 'a" where
  "getitem d key = (case map_of d key of None \<Rightarrow> Inl (KeyError key) | Some v \<Rightarrow> Inr v)"

text \<open>The body of the loop of \<^verbatim>\<open>_make_metrics_ops\<close>, for one item of \<^verbatim>\<open>metrics\<close>.\<close>

definition make_metric_op ::
  "'v tensors \<Rightarrow> 'v tensors option \<Rightarrow> 'v tensors option \<Rightarrow> metric_key \<Rightarrow> 'v metric
     \<Rightarrow> (metric_key \<times> 'v metric_result) list \<Rightarrow> error + (metric_key \<times> 'v metric_result) list" where
  "make_metric_op features targets predictions name m result =
     (case m of
        MetricSpec create_metric_ops \<Rightarrow>
          Inr (AList.update name (create_metric_ops features targets predictions) result)
      | Metric_fn metric_fn \<Rightarrow>
          (case name of
             Names ns \<Rightarrow>
               if length ns \<noteq> 2
               then Inl (ValueError ''Invalid metric for {}. It returned a tuple with len {}, expected 2.'')
               else (case predictions of
                       Some (Dict pd) \<Rightarrow>
                         (case getitem pd (ns ! 1) of
                            Inl e \<Rightarrow> Inl e
                          | Inr p \<Rightarrow>
                              (case targets of
                                 Some (Dict td) \<Rightarrow>
                                   (case map_of td (ns ! 1) of
                                      Some t \<Rightarrow>
                                        Inr (AList.update (Name (ns ! 0))
                                               (metric_fn (Some p) (Some (Tensor t))) result)
                                    | None \<Rightarrow>
                                        Inr (AList.update (Name (ns ! 0))
                                               (metric_fn (Some p) targets) result))
                               | _ \<Rightarrow>
                                   Inr (AList.update (Name (ns ! 0))
                                          (metric_fn (Some p) targets) result)))
                     | _ \<Rightarrow> Inl (ValueError
                         ''Metrics passed provide (name, prediction), but predictions are not dict. Metrics: %s, Predictions: %s.''))
           | Name n \<Rightarrow>
               (case predictions of
                  Some (Dict pd) \<Rightarrow> Inl (ValueError
                    ''Metrics passed provide only name, no prediction, but predictions are dict. Metrics: %s, Targets: %s.'')
                | Some (Tensor p) \<Rightarrow> Inr (AList.update name (metric_fn (Some p) targets) result)
                | None \<Rightarrow> Inr (AList.update name (metric_fn None targets) result))))"

fun make_metrics_loop ::
  "'v tensors \<Rightarrow> 'v tensors option \<Rightarrow> 'v tensors option \<Rightarrow> (metric_key \<times> 'v metric) list
     \<Rightarrow> (metric_key \<times> 'v metric_result) list \<Rightarrow> error + (metric_key \<times> 'v metric_result) list" where
  "make_metrics_loop features targets predictions [] result = Inr result"
| "make_metrics_loop features targets predictions ((name, m) # items) result =
     (case make_metric_op features targets predictions name m result of
        Inl e \<Rightarrow> Inl e
      | Inr result' \<Rightarrow> make_metrics_loop features targets predictions items result')"

definition make_metrics_ops ::
  "(metric_key \<times> 'v metric) list option \<Rightarrow> 'v tensors \<Rightarrow> 'v tensors option \<Rightarrow> 'v tensors option
     \<Rightarrow> error + (metric_key \<times> 'v metric_result) list" where
  "make_metrics_ops metrics features targets0 predictions =
     (let items = (case metrics of None \<Rightarrow> [] | Some ms \<Rightarrow> ms);
          targets = (case targets0 of Some (Dict [(k, t)]) \<Rightarrow> Some (Tensor t) | _ \<Rightarrow> targets0)
      in make_metrics_loop features targets predictions items [])"

text \<open>
  The rest of the engine: \<^verbatim>\<open>metrics_lib.streaming_mean\<close>, \<^verbatim>\<open>control_flow_ops.group\<close>,
  \<^verbatim>\<open>saver.latest_checkpoint\<close> (read from the checkpoint store of the world, below) and the
  loops of \<^verbatim>\<open>graph_actions\<close>. \<open>'r\<close> is the type of a row of a numpy array: an array is
  the list of its rows along axis 0, and \<^verbatim>\<open>np.concatenate(_, axis=0)\<close> is a parameter.
\<close>

datatype monitor =
    SessionRunHook string
  | BaseMonitor string (run_on_all_workers: bool)
  | RunHookAdapterForMonitors "monitor list"

fun is_SessionRunHook :: "monitor \<Rightarrow> bool" where
  "is_SessionRunHook (BaseMonitor n w) = False"
| "is_SessionRunHook m = True"

datatype 'fd feed_dicts = Repeat_None | Feed_fn_calls 'fd

text \<open>How a generator ends: by \<^verbatim>\<open>StopIteration\<close>, or with an exception.\<close>

datatype gen_end = StopIteration | Raised error

record ('v, 'fd) train_request =
  req_graph :: nat
  req_output_dir :: string
  req_train_op :: "'v option"
  req_loss_op :: "'v option"
  req_is_chief :: bool
  req_config :: RunConfig
  req_feed_fn :: "'fd option"
  req_steps :: "nat option"
  req_hooks :: "monitor list"
  req_max_steps :: "nat option"

record ('v, 'fd) eval_request =
  ev_graph :: nat
  ev_output_dir :: string
  ev_checkpoint_path :: string
  ev_eval_dict :: "(metric_key \<times> 'v metric_result) list"
  ev_update_op :: "'v option"
  ev_config :: RunConfig
  ev_feed_fn :: "'fd option"
  ev_max_steps :: "nat option"

record ('v, 'fd, 'r) engine =
  streaming_mean :: "'v option \<Rightarrow> 'v metric_result"
  group :: "'v list \<Rightarrow> 'v"
  monitored_train ::
    "('v, 'fd) train_request \<Rightarrow> (string \<Rightarrow> string option) \<Rightarrow> 'r option \<times> (string \<Rightarrow> string option)"
  evaluate_graph ::
    "('v, 'fd) eval_request \<Rightarrow> (metric_key \<times> 'r option) list option \<times> 'r option"
  infer :: "string \<Rightarrow> (string \<times> 'v option) list \<Rightarrow> (string \<times> 'r list) list"
  run_feeds ::
    "(string \<times> 'v option) list \<Rightarrow> 'fd feed_dicts \<Rightarrow> string \<Rightarrow> (string \<times> 'r list) list list"
  run_feeds_iter ::
    "(string \<times> 'v option) list \<Rightarrow> 'fd feed_dicts \<Rightarrow> string
       \<Rightarrow> (string \<times> 'r list) list list \<times> gen_end"
  np_concatenate :: "'r list list \<Rightarrow> 'r list"

definition maybe_add_streaming_mean ::
  "('v, 'fd, 'r) engine \<Rightarrow> (metric_key \<times> 'v metric_result) list \<Rightarrow> metric_key \<Rightarrow> 'v option
     \<Rightarrow> (metric_key \<times> 'v metric_result) list" where
  "maybe_add_streaming_mean eng result key v =
     (if map_of result key \<noteq> None then result
      else AList.update key (streaming_mean eng v) result)"

section \<open>estimators/estimator.py: the estimator lifecycle\<close>

text \<open>
  The world outside the estimator object: the checkpoint store, read by
  \<^verbatim>\<open>saver.latest_checkpoint\<close> and written by the training loop, and a trace of what the
  estimator has asked of its collaborators, latest first. The trace is there to state that
  something has not happened yet: a lookup of the latest checkpoint, the construction of a
  graph (\<^verbatim>\<open>ops.Graph()\<close>), a sleep, a run of one of the engine's loops.
\<close>

datatype event =
    Latest_checkpoint string
  | New_graph
  | Sleep nat
  | Monitored_train
  | Evaluate_graph
  | Infer
  | Run_feeds

record world =
  checkpoints :: "string \<Rightarrow> string option"
  trace :: "event list"

definition latest_checkpoint :: "string \<Rightarrow> world \<Rightarrow> string option \<times> world" where
  "latest_checkpoint dir w = (checkpoints w dir, w\<lparr>trace := Latest_checkpoint dir # trace w\<rparr>)"

text \<open>\<^verbatim>\<open>ops.Graph()\<close>: a new graph, named by the number of graphs built before it.\<close>

definition new_graph :: "world \<Rightarrow> nat \<times> world" where
  "new_graph w = (length (filter (\<lambda>e. e = New_graph) (trace w)), w\<lparr>trace := New_graph # trace w\<rparr>)"

text \<open>\<^verbatim>\<open>os.path.join(a, b)\<close> of \<^verbatim>\<open>posixpath\<close>, for two components.\<close>

definition path_join :: "string \<Rightarrow> string \<Rightarrow> string" where
  "path_join a b =
     (if b \<noteq> [] \<and> hd b = CHR ''/'' then b
      else if a = [] \<or> last a = CHR ''/'' then a @ b
      else a @ ''/'' @ b)"

record ('x, 'v, 's, 'fd, 'r) collaborators =
  tensorflow :: "'v tf_ops"
  feeder :: "('x, 'v, 'fd) input_api"
  tensor_signature :: "('v, 's) signature_api"
  graph_actions :: "('v, 'fd, 'r) engine"

text \<open>
  The methods a concrete estimator provides, each applied to \<^verbatim>\<open>self\<close>:
  \<^verbatim>\<open>_get_train_ops\<close> returns \<^verbatim>\<open>(train_op, loss)\<close>, \<^verbatim>\<open>_get_eval_ops\<close> the dictionary
  of metric operations, \<^verbatim>\<open>_get_predict_ops\<close> the predictions.
\<close>

record ('self, 'v) estimator_methods =
  get_train_ops :: "'self \<Rightarrow> 'v tensors \<Rightarrow> 'v tensors option \<Rightarrow> error + ('v option \<times> 'v option)"
  get_eval_ops ::
    "'self \<Rightarrow> 'v tensors \<Rightarrow> 'v tensors option \<Rightarrow> (metric_key \<times> 'v metric) list option
       \<Rightarrow> error + (metric_key \<times> 'v metric_result) list"
  get_predict_ops :: "'self \<Rightarrow> 'v tensors \<Rightarrow> error + 'v tensors option"

text \<open>
  \<^verbatim>\<open>_train_model\<close>, with the arguments \<^verbatim>\<open>fit\<close> passes (\<^verbatim>\<open>init_op\<close>,
  \<^verbatim>\<open>init_feed_fn\<close>, \<^verbatim>\<open>init_fn\<close> and \<^verbatim>\<open>device_fn\<close> stay at their defaults). It
  returns \<^verbatim>\<open>None\<close> when the execution mode excludes training, the final loss otherwise.
  \<open>startup_stagger\<close> is its first block, the test of the execution mode and the
  staggered start of the workers (\<open>None\<close>: the method returns at once);
  \<open>monitor_hooks\<close> is the block that sorts the monitors into hooks and deprecated
  monitors. \<^verbatim>\<open>monitor.set_estimator(self)\<close> changes the monitor only and is left out.
\<close>

definition startup_stagger :: "RunConfig \<Rightarrow> world \<Rightarrow> world option" where
  "startup_stagger cfg w =
     (case execution_mode cfg of
        None \<Rightarrow> Some w
      | Some em \<Rightarrow>
          if em \<notin> {''all'', ''train''} then None
          else (let sleep_secs =
                      min (training_worker_max_startup_secs cfg)
                          (task cfg * training_worker_session_startup_stagger_secs cfg)
                in Some (if sleep_secs \<noteq> 0 then w\<lparr>trace := Sleep sleep_secs # trace w\<rparr> else w)))"

definition monitor_hooks :: "bool \<Rightarrow> monitor list option \<Rightarrow> monitor list" where
  "monitor_hooks supervisor_is_chief monitors0 =
     (let monitors = (case monitors0 of None \<Rightarrow> [] | Some ms \<Rightarrow> ms);
          hooks = filter is_SessionRunHook monitors;
          deprecated_monitors = filter (\<lambda>m. \<not> is_SessionRunHook m) monitors;
          deprecated_monitors =
            (if \<not> supervisor_is_chief then filter run_on_all_workers deprecated_monitors
             else deprecated_monitors)
      in if deprecated_monitors \<noteq> []
         then hooks @ [RunHookAdapterForMonitors deprecated_monitors] else hooks)"

definition train_model ::
  "('x, 'v, 's, 'fd, 'r) collaborators \<Rightarrow> (('s, 'z) BaseEstimator_scheme, 'v) estimator_methods
     \<Rightarrow> 'v input_function \<Rightarrow> nat option \<Rightarrow> 'fd option \<Rightarrow> monitor list option \<Rightarrow> nat option
     \<Rightarrow> ('s, 'z) BaseEstimator_scheme \<Rightarrow> world
     \<Rightarrow> (error + 'r option) \<times> ('s, 'z) BaseEstimator_scheme \<times> world" where
  "train_model env methods input_fn steps feed_fn monitors max_steps self w =
     (case startup_stagger (config self) w of
        None \<Rightarrow> (Inr None, self, w)
      | Some w1 \<Rightarrow>
          (case new_graph w1 of (g, w2) \<Rightarrow>
           case input_fn () of
             Features_only fs \<Rightarrow> (Inl TypeError, self\<lparr>graph := Some g\<rparr>, w2)
           | Features_targets features targets \<Rightarrow>
           case check_inputs (tensor_signature env) features targets (self\<lparr>graph := Some g\<rparr>) of
             (Inl e, self2) \<Rightarrow> (Inl e, self2, w2)
           | (Inr u, self2) \<Rightarrow>
           case get_train_ops methods self2 features targets of
             Inl e \<Rightarrow> (Inl e, self2, w2)
           | Inr (train_op, loss_op) \<Rightarrow>
           case monitored_train (graph_actions env)
                  \<lparr>req_graph = g, req_output_dir = model_dir self2, req_train_op = train_op,
                   req_loss_op = loss_op, req_is_chief = is_chief (config self2),
                   req_config = config self2, req_feed_fn = feed_fn, req_steps = steps,
                   req_hooks = monitor_hooks (is_chief (config self2)) monitors,
                   req_max_steps = max_steps\<rparr>
                  (checkpoints w2) of
             (loss, store) \<Rightarrow>
               (Inr loss, self2, w2\<lparr>checkpoints := store, trace := Monitored_train # trace w2\<rparr>)))"

text \<open>\<^verbatim>\<open>fit\<close> returns \<^verbatim>\<open>self\<close>: the estimator of the result.\<close>

definition fit ::
  "('x, 'v, 's, 'fd, 'r) collaborators \<Rightarrow> (('s, 'z) BaseEstimator_scheme, 'v) estimator_methods
     \<Rightarrow> 'x option \<Rightarrow> 'x option \<Rightarrow> 'v input_function option \<Rightarrow> nat option \<Rightarrow> nat option
     \<Rightarrow> monitor list option \<Rightarrow> nat option
     \<Rightarrow> ('s, 'z) BaseEstimator_scheme \<Rightarrow> world
     \<Rightarrow> (error + unit) \<times> ('s, 'z) BaseEstimator_scheme \<times> world" where
  "fit env methods x y input_fn steps batch_size monitors max_steps self w =
     (if steps \<noteq> None \<and> max_steps \<noteq> None
      then (Inl (ValueError ''Can not provide both steps and max_steps.''), self, w)
      else case get_input_fn (feeder env) x y input_fn None batch_size True None of
             Inl e \<Rightarrow> (Inl e, self, w)
           | Inr (input_fn1, feed_fn) \<Rightarrow>
               (case train_model env methods input_fn1 steps feed_fn monitors max_steps self w of
                  (Inl e, self1, w1) \<Rightarrow> (Inl e, self1, w1)
                | (Inr loss, self1, w1) \<Rightarrow> (Inr (), self1, w1)))"

text \<open>\<^verbatim>\<open>partial_fit\<close>; its caller passes \<^verbatim>\<open>steps=1\<close> for the default.\<close>

definition partial_fit ::
  "('x, 'v, 's, 'fd, 'r) collaborators \<Rightarrow> (('s, 'z) BaseEstimator_scheme, 'v) estimator_methods
     \<Rightarrow> 'x option \<Rightarrow> 'x option \<Rightarrow> 'v input_function option \<Rightarrow> nat option \<Rightarrow> nat option
     \<Rightarrow> monitor list option
     \<Rightarrow> ('s, 'z) BaseEstimator_scheme \<Rightarrow> world
     \<Rightarrow> (error + unit) \<times> ('s, 'z) BaseEstimator_scheme \<times> world" where
  "partial_fit env methods x y input_fn steps batch_size monitors self w =
     fit env methods x y input_fn steps batch_size monitors None self w"

text \<open>The loop body and the loop of \<^verbatim>\<open>_extract_metric_update_ops\<close>.\<close>

fun extract_metric_update_loop ::
  "(metric_key \<times> 'v metric_result) list \<Rightarrow> 'v list \<times> (metric_key \<times> 'v metric_result) list
     \<Rightarrow> 'v list \<times> (metric_key \<times> 'v metric_result) list" where
  "extract_metric_update_loop [] acc = acc"
| "extract_metric_update_loop ((name, metric_ops) # items) (update_ops, value_ops) =
     extract_metric_update_loop items
       (case metric_ops of
          Sequence [value_op, update_op] \<Rightarrow>
            (update_ops @ [update_op], AList.update name (Value value_op) value_ops)
        | _ \<Rightarrow> (update_ops, AList.update name metric_ops value_ops))"

definition extract_metric_update_ops ::
  "('v, 'fd, 'r) engine \<Rightarrow> (metric_key \<times> 'v metric_result) list
     \<Rightarrow> 'v option \<times> (metric_key \<times> 'v metric_result) list" where
  "extract_metric_update_ops eng eval_dict =
     (case extract_metric_update_loop eval_dict ([], []) of
        (update_ops, value_ops) \<Rightarrow>
          (if update_ops \<noteq> [] then Some (group eng update_ops) else None, value_ops))"

text \<open>\<^verbatim>\<open>not s\<close> for a string or \<^verbatim>\<open>None\<close>.\<close>

definition falsy :: "string option \<Rightarrow> bool" where
  "falsy s \<longleftrightarrow> s = None \<or> s = Some []"

text \<open>
  The first test of \<^verbatim>\<open>_evaluate_model\<close>, on the execution mode of the configuration, and
  the output directory it sets up.
\<close>

definition evaluation_excluded :: "RunConfig \<Rightarrow> bool" where
  "evaluation_excluded cfg =
     (case execution_mode cfg of
        None \<Rightarrow> False
      | Some em \<Rightarrow> em \<notin> {''all'', ''evaluate'', ''eval_evalset''})"

definition eval_dir :: "string \<Rightarrow> string option \<Rightarrow> string" where
  "eval_dir dir name =
     path_join dir (case name of
                      None \<Rightarrow> ''eval''
                    | Some n \<Rightarrow> if n = [] then ''eval'' else ''eval_'' @ n)"

definition evaluate_model ::
  "('x, 'v, 's, 'fd, 'r) collaborators \<Rightarrow> (('s, 'z) BaseEstimator_scheme, 'v) estimator_methods
     \<Rightarrow> 'v input_function \<Rightarrow> nat option \<Rightarrow> 'fd option \<Rightarrow> (metric_key \<times> 'v metric) list option
     \<Rightarrow> string option
     \<Rightarrow> ('s, 'z) BaseEstimator_scheme \<Rightarrow> world
     \<Rightarrow> (error + ((metric_key \<times> 'r option) list option \<times> 'r option))
          \<times> ('s, 'z) BaseEstimator_scheme \<times> world" where
  "evaluate_model env methods input_fn steps feed_fn metrics name self w =
     (if evaluation_excluded (config self)
      then (Inr (None, None), self, w)
      else
        (let checkpoint_path = model_dir self in
         case latest_checkpoint checkpoint_path w of (latest_path, w1) \<Rightarrow>
         if falsy latest_path
         then (Inl (NotFittedError (''Couldn'' @ [CHR 0x27] @ ''t find trained model at %s.'')),
               self, w1)
         else
           (case new_graph w1 of (g, w2) \<Rightarrow>
            case input_fn () of
              Features_only fs \<Rightarrow> (Inl TypeError, self, w2)
            | Features_targets features targets \<Rightarrow>
            case check_inputs (tensor_signature env) features targets self of
              (Inl e, self1) \<Rightarrow> (Inl e, self1, w2)
            | (Inr u, self1) \<Rightarrow>
            case get_eval_ops methods self1 features targets metrics of
              Inl e \<Rightarrow> (Inl e, self1, w2)
            | Inr eval_dict0 \<Rightarrow>
            case extract_metric_update_ops (graph_actions env) eval_dict0 of
              (update_op, eval_dict) \<Rightarrow>
            case evaluate_graph (graph_actions env)
                   \<lparr>ev_graph = g, ev_output_dir = eval_dir (model_dir self) name,
                    ev_checkpoint_path = checkpoint_path,
                    ev_eval_dict = eval_dict, ev_update_op = update_op, ev_config = config self1,
                    ev_feed_fn = feed_fn, ev_max_steps = steps\<rparr> of
              (eval_results, current_global_step) \<Rightarrow>
                (Inr (eval_results, current_global_step), self1,
                 w2\<lparr>trace := Evaluate_graph # trace w2\<rparr>))))"

text \<open>
  The \<^verbatim>\<open>metrics\<close> argument of \<^verbatim>\<open>evaluate\<close>: \<^verbatim>\<open>None\<close>, a \<^verbatim>\<open>dict\<close>, or something
  else.
\<close>

datatype 'v metrics_arg = Metrics_dict "(metric_key \<times> 'v metric) list" | Not_a_dict

definition evaluate ::
  "('x, 'v, 's, 'fd, 'r) collaborators \<Rightarrow> (('s, 'z) BaseEstimator_scheme, 'v) estimator_methods
     \<Rightarrow> 'x option \<Rightarrow> 'x option \<Rightarrow> 'v input_function option \<Rightarrow> 'fd option \<Rightarrow> nat option
     \<Rightarrow> nat option \<Rightarrow> 'v metrics_arg option \<Rightarrow> string option
     \<Rightarrow> ('s, 'z) BaseEstimator_scheme \<Rightarrow> world
     \<Rightarrow> (error + (metric_key \<times> 'r option) list option)
          \<times> ('s, 'z) BaseEstimator_scheme \<times> world" where
  "evaluate env methods x y input_fn feed_fn batch_size steps metrics name self w =
     (case get_input_fn (feeder env) x y input_fn feed_fn batch_size False (Some 1) of
        Inl e \<Rightarrow> (Inl e, self, w)
      | Inr (input_fn1, feed_fn1) \<Rightarrow>
          (case metrics of
             Some Not_a_dict \<Rightarrow>
               (Inl (ValueError ''Metrics argument should be None or dict. Got %s.''), self, w)
           | _ \<Rightarrow>
               (case evaluate_model env methods input_fn1 steps feed_fn1
                       (case metrics of Some (Metrics_dict d) \<Rightarrow> Some d | _ \<Rightarrow> None) name self w of
                  (Inl e, self1, w1) \<Rightarrow> (Inl e, self1, w1)
                | (Inr (eval_results, global_step), self1, w1) \<Rightarrow>
                    (Inr (case eval_results of
                            None \<Rightarrow> None
                          | Some rs \<Rightarrow> Some (AList.update (Name ''global_step'') global_step rs)),
                     self1, w1))))"

definition get_features_from_input_fn :: "'v input_function \<Rightarrow> 'v tensors" where
  "get_features_from_input_fn input_fn =
     (case input_fn () of
        Features_targets features targets \<Rightarrow> features
      | Features_only features \<Rightarrow> features)"

text \<open>
  What \<^verbatim>\<open>predict\<close> returns: a dictionary of arrays or one array (from
  \<^verbatim>\<open>_infer_model_single\<close>), or the generator of \<^verbatim>\<open>_infer_model_as_iterable\<close>. A
  generator is given by the items it yields when it is consumed to its end, and by how it
  ends there.
\<close>

datatype 'r item = Item_dict "(string \<times> 'r) list" | Item 'r

datatype 'r prediction_output =
    Arrays "(string \<times> 'r list) list"
  | Array "'r list"
  | Iterable "'r item list" gen_end

definition infer_model_single ::
  "('v, 'fd, 'r) engine \<Rightarrow> string \<Rightarrow> (string \<times> 'v option) list \<Rightarrow> 'fd option \<Rightarrow> bool \<Rightarrow> world
     \<Rightarrow> (error + 'r prediction_output) \<times> world" where
  "infer_model_single eng checkpoint_path predictions feed_fn return_dict w =
     (case (case feed_fn of
              None \<Rightarrow> (Inr (infer eng checkpoint_path predictions), w\<lparr>trace := Infer # trace w\<rparr>)
            | Some fd \<Rightarrow>
                (let outputs = run_feeds eng predictions (Feed_fn_calls fd) checkpoint_path
                 in (collect (\<lambda>(key, v).
                        case collect (\<lambda>output. getitem output key) outputs of
                          Inl e \<Rightarrow> Inl e
                        | Inr arrays \<Rightarrow> Inr (key, np_concatenate eng arrays)) predictions,
                     w\<lparr>trace := Run_feeds # trace w\<rparr>))) of
        (Inl e, w1) \<Rightarrow> (Inl e, w1)
      | (Inr preds, w1) \<Rightarrow>
          if return_dict then (Inr (Arrays preds), w1)
          else (case getitem preds ''predictions'' of
                  Inl e \<Rightarrow> (Inl e, w1)
                | Inr a \<Rightarrow> (Inr (Array a), w1)))"

text \<open>
  The inner loops of \<^verbatim>\<open>_infer_model_as_iterable\<close> for one batch. With \<^verbatim>\<open>return_dict\<close>
  the batch length is read off the first value of the batch (IndexError on an empty
  dictionary) and row \<open>i\<close> is taken of every value (IndexError on a value that is
  shorter); otherwise the rows of \<^verbatim>\<open>output_batch['predictions']\<close> are yielded. The result
  is the items yielded and the exception that ended the batch, if any.
\<close>

fun unpack_rows :: "(string \<times> 'r list) list \<Rightarrow> nat list \<Rightarrow> 'r item list \<times> error option" where
  "unpack_rows output_batch [] = ([], None)"
| "unpack_rows output_batch (i # is) =
     (if list_ex (\<lambda>(key, v). length v \<le> i) output_batch then ([], Some IndexError)
      else (case unpack_rows output_batch is of
              (items, e) \<Rightarrow> (Item_dict (map (\<lambda>(key, v). (key, v ! i)) output_batch) # items, e)))"

definition unpack_batch :: "bool \<Rightarrow> (string \<times> 'r list) list \<Rightarrow> 'r item list \<times> error option" where
  "unpack_batch return_dict output_batch =
     (if return_dict then
        (case output_batch of
           [] \<Rightarrow> ([], Some IndexError)
         | (key, v) # rest \<Rightarrow> unpack_rows output_batch [0..<length v])
      else
        (case getitem output_batch ''predictions'' of
           Inl e \<Rightarrow> ([], Some e)
         | Inr preds \<Rightarrow> (map Item preds, None)))"

text \<open>
  The \<^verbatim>\<open>try\<close> statement of \<^verbatim>\<open>_infer_model_as_iterable\<close>, over the batches the
  engine's generator yields and the way that generator ends: the \<^verbatim>\<open>for\<close> loop ends with
  the engine's generator, and \<^verbatim>\<open>except errors.OutOfRangeError\<close> turns that exception
  into the normal end of the generator.
\<close>

fun iterate_batches ::
  "bool \<Rightarrow> (string \<times> 'r list) list list \<Rightarrow> gen_end \<Rightarrow> 'r item list \<times> gen_end" where
  "iterate_batches return_dict [] e =
     ([], if e = Raised OutOfRangeError then StopIteration else e)"
| "iterate_batches return_dict (output_batch # batches) e =
     (case unpack_batch return_dict output_batch of
        (items, Some err) \<Rightarrow>
          (items, if err = OutOfRangeError then StopIteration else Raised err)
      | (items, None) \<Rightarrow>
          (case iterate_batches return_dict batches e of
             (later, e') \<Rightarrow> (items @ later, e')))"

definition infer_model_as_iterable ::
  "('v, 'fd, 'r) engine \<Rightarrow> string \<Rightarrow> (string \<times> 'v option) list \<Rightarrow> 'fd option \<Rightarrow> bool
     \<Rightarrow> 'r item list \<times> gen_end" where
  "infer_model_as_iterable eng checkpoint_path predictions feed_fn return_dict =
     (let feed_dicts = (case feed_fn of None \<Rightarrow> Repeat_None | Some fd \<Rightarrow> Feed_fn_calls fd)
      in case run_feeds_iter eng predictions feed_dicts checkpoint_path of
           (batches, e) \<Rightarrow> iterate_batches return_dict batches e)"

text \<open>
  Two blocks of \<^verbatim>\<open>_infer_model\<close>: a single prediction is wrapped into a dictionary
  under the key \<open>predictions\<close>, and the dictionary is filtered by \<^verbatim>\<open>outputs\<close> when
  that is neither \<^verbatim>\<open>None\<close> nor empty.
\<close>

definition wrap_predictions :: "'v tensors option \<Rightarrow> bool \<times> (string \<times> 'v option) list" where
  "wrap_predictions predictions =
     (case predictions of
        Some (Dict d) \<Rightarrow> (True, map (\<lambda>(k, v). (k, Some v)) d)
      | Some (Tensor p) \<Rightarrow> (False, [(''predictions'', Some p)])
      | None \<Rightarrow> (False, [(''predictions'', None)]))"

definition filter_outputs ::
  "string list option \<Rightarrow> (string \<times> 'v option) list \<Rightarrow> error + (string \<times> 'v option) list" where
  "filter_outputs outputs predictions0 =
     (case outputs of
        None \<Rightarrow> Inr predictions0
      | Some outs \<Rightarrow>
          if outs = [] then Inr predictions0
          else (let predictions = filter (\<lambda>(key, v). key \<in> set outs) predictions0
                in if predictions = []
                   then Inl (ValueError ''Expected to run at least one output from %s, provided %s.'')
                   else Inr predictions))"

definition infer_model ::
  "('x, 'v, 's, 'fd, 'r) collaborators \<Rightarrow> (('s, 'z) BaseEstimator_scheme, 'v) estimator_methods
     \<Rightarrow> 'v input_function \<Rightarrow> 'fd option \<Rightarrow> string list option \<Rightarrow> bool
     \<Rightarrow> ('s, 'z) BaseEstimator_scheme \<Rightarrow> world
     \<Rightarrow> (error + 'r prediction_output) \<times> ('s, 'z) BaseEstimator_scheme \<times> world" where
  "infer_model env methods input_fn feed_fn outputs as_iterable self w =
     (case latest_checkpoint (model_dir self) w of (latest_path, w1) \<Rightarrow>
      case (if falsy latest_path then None else latest_path) of
        None \<Rightarrow>
          (Inl (NotFittedError (''Couldn'' @ [CHR 0x27] @ ''t find trained model at %s.'')),
           self, w1)
      | Some checkpoint_path \<Rightarrow>
          (case new_graph w1 of (g, w2) \<Rightarrow>
           case get_predict_ops methods self (get_features_from_input_fn input_fn) of
             Inl e \<Rightarrow> (Inl e, self, w2)
           | Inr predictions0 \<Rightarrow>
           case wrap_predictions predictions0 of (return_dict, predictions1) \<Rightarrow>
           case filter_outputs outputs predictions1 of
             Inl e \<Rightarrow> (Inl e, self, w2)
           | Inr predictions \<Rightarrow>
               if as_iterable
               then (case infer_model_as_iterable (graph_actions env) checkpoint_path
                            predictions feed_fn return_dict of
                       (items, e) \<Rightarrow> (Inr (Iterable items e), self, w2))
               else (case infer_model_single (graph_actions env) checkpoint_path predictions
                            feed_fn return_dict w2 of
                       (r, w3) \<Rightarrow> (r, self, w3))))"

definition predict ::
  "('x, 'v, 's, 'fd, 'r) collaborators \<Rightarrow> (('s, 'z) BaseEstimator_scheme, 'v) estimator_methods
     \<Rightarrow> 'x option \<Rightarrow> 'v input_function option \<Rightarrow> nat option \<Rightarrow> string list option \<Rightarrow> bool
     \<Rightarrow> ('s, 'z) BaseEstimator_scheme \<Rightarrow> world
     \<Rightarrow> (error + 'r prediction_output) \<times> ('s, 'z) BaseEstimator_scheme \<times> world" where
  "predict env methods x input_fn batch_size outputs as_iterable self w =
     (case get_input_fn (feeder env) x None input_fn None batch_size False (Some 1) of
        Inl e \<Rightarrow> (Inl e, self, w)
      | Inr (input_fn1, feed_fn) \<Rightarrow>
          infer_model env methods input_fn1 feed_fn outputs as_iterable self w)"

section \<open>estimators/estimator.py: the methods of Estimator\<close>

definition Estimator_get_train_ops ::
  "'v tf_ops \<Rightarrow> ('s, 'v, 'p, 'z) Estimator_scheme \<Rightarrow> 'v tensors \<Rightarrow> 'v tensors option
     \<Rightarrow> error + ('v option \<times> 'v option)" where
  "Estimator_get_train_ops tf self features targets =
     (case call_model_fn tf self features targets TRAIN of
        Inl e \<Rightarrow> Inl e
      | Inr (predictions, loss, train_op) \<Rightarrow> Inr (train_op, loss))"

definition Estimator_get_eval_ops ::
  "'v tf_ops \<Rightarrow> ('v, 'fd, 'r) engine \<Rightarrow> ('s, 'v, 'p, 'z) Estimator_scheme \<Rightarrow> 'v tensors
     \<Rightarrow> 'v tensors option \<Rightarrow> (metric_key \<times> 'v metric) list option
     \<Rightarrow> error + (metric_key \<times> 'v metric_result) list" where
  "Estimator_get_eval_ops tf eng self features targets metrics =
     (case call_model_fn tf self features targets EVAL of
        Inl e \<Rightarrow> Inl e
      | Inr (predictions, loss, train_op) \<Rightarrow>
          (case make_metrics_ops metrics features targets predictions of
             Inl e \<Rightarrow> Inl e
           | Inr result0 \<Rightarrow>
               (let result = maybe_add_streaming_mean eng result0 (Name ''loss'') loss
                in Inr (case predictions of
                          None \<Rightarrow> result
                        | Some (Dict d) \<Rightarrow>
                            fold (\<lambda>(k, v) r. maybe_add_streaming_mean eng r (Name k) (Some v)) d result
                        | Some (Tensor p) \<Rightarrow>
                            maybe_add_streaming_mean eng result (Name ''predictions'') (Some p)))))"

definition Estimator_get_predict_ops ::
  "'v tf_ops \<Rightarrow> ('v, 's) signature_api \<Rightarrow> ('s, 'v, 'p, 'z) Estimator_scheme \<Rightarrow> 'v tensors
     \<Rightarrow> error + 'v tensors option" where
  "Estimator_get_predict_ops tf api self features =
     (let targets = create_placeholders_from_signatures api (targets_info self)
      in case call_model_fn tf self features targets INFER of
           Inl e \<Rightarrow> Inl e
         | Inr (predictions, loss, train_op) \<Rightarrow> Inr predictions)"

definition Estimator_methods ::
  "('x, 'v, 's, 'fd, 'r) collaborators \<Rightarrow> (('s, 'v, 'p, 'z) Estimator_scheme, 'v) estimator_methods" where
  "Estimator_methods env =
     \<lparr>get_train_ops = Estimator_get_train_ops (tensorflow env),
      get_eval_ops = Estimator_get_eval_ops (tensorflow env) (graph_actions env),
      get_predict_ops = Estimator_get_predict_ops (tensorflow env) (tensor_signature env)\<rparr>"

section \<open>A small engine and estimators for worked examples\<close>

text \<open>
  Concrete collaborators on which the theorems below are evaluated: a graph value is a named
  tensor with its static shape, or a named operation; conversion leaves a value as it is,
  \<^verbatim>\<open>.op\<close> names the operation after the tensor, and reshaping replaces the shape.
\<close>

datatype example_value = T string TensorShape | Op string

definition example_tf :: "example_value tf_ops" where
  "example_tf =
     \<lparr>is_Operation = (\<lambda>v. case v of Op n \<Rightarrow> True | T n s \<Rightarrow> False),
      convert_to_tensor = (\<lambda>v. v),
      tensor_op = (\<lambda>v. case v of T n s \<Rightarrow> Op n | Op n \<Rightarrow> Op n),
      get_shape = (\<lambda>v. case v of T n s \<Rightarrow> s | Op n \<Rightarrow> TensorShape None),
      reshape = (\<lambda>v ds. case v of T n s \<Rightarrow> T n (TensorShape (Some (map Some ds))) | Op n \<Rightarrow> Op n),
      convert_to_tensor_or_sparse_tensor = (\<lambda>v. v)\<rparr>"

definition example_config :: "string option \<Rightarrow> RunConfig" where
  "example_config em =
     \<lparr>execution_mode = em, training_worker_max_startup_secs = 0, task = 0,
      training_worker_session_startup_stagger_secs = 0, is_chief = True\<rparr>"

definition example_estimator ::
  "string option \<Rightarrow> (example_value, unit) model_function
     \<Rightarrow> (TensorShape list, example_value, unit) Estimator" where
  "example_estimator em f =
     \<lparr>model_dir = ''/tmp/model'', config = example_config em, features_info = None,
      targets_info = None, graph = None, model_fn = Some f, params = None,
      feature_engineering_fn = identity_feature_engineering_fn\<rparr>"

text \<open>
  \<^verbatim>\<open>def model_fn(features, targets, mode)\<close>: no train\_op in any mode; a loss of shape
  \<open>[1]\<close> when evaluating, of rank 0 when training, none when predicting; the features as
  predictions when predicting.
\<close>

definition mode_model :: "(example_value, unit) model_function" where
  "mode_model =
     \<lparr>introspect = PyFunc (Some [''features'', ''targets'', ''mode'']) None None,
      body = (\<lambda>c. case c of
                Call_mode fe te m \<Rightarrow>
                  (case m of
                     TRAIN \<Rightarrow> (None, Some (T ''loss'' (TensorShape (Some []))), None)
                   | EVAL \<Rightarrow> (None, Some (T ''loss'' (TensorShape (Some [Some 1]))), None)
                   | INFER \<Rightarrow> (Some fe, None, None))
              | _ \<Rightarrow> (None, None, None))\<rparr>"

text \<open>\<^verbatim>\<open>def model_fn(features, targets)\<close> with a loss of the given shape.\<close>

definition shape_model :: "TensorShape \<Rightarrow> (example_value, unit) model_function" where
  "shape_model sh =
     \<lparr>introspect = PyFunc (Some [''features'', ''targets'']) None None,
      body = (\<lambda>c. (Some (Dict [(''classes'', T ''argmax'' (TensorShape (Some [None])))]),
                   Some (T ''loss'' sh), Some (Op ''train'')))\<rparr>"

text \<open>
  \<^verbatim>\<open>def model_fn(features, targets)\<close> and
  \<^verbatim>\<open>def model_fn(features, targets, mode, params)\<close>, each returning the features it was
  given as predictions, a loss of rank 0 and a train\_op. Python cannot bind another
  call than the one written here to these functions (it raises TypeError before the
  function runs), and the estimator makes no other.
\<close>

definition two_argument_model :: "(example_value, unit) model_function" where
  "two_argument_model =
     \<lparr>introspect = PyFunc (Some [''features'', ''targets'']) None None,
      body = (\<lambda>c. case c of
                Call_features_targets fe te \<Rightarrow>
                  (Some fe, Some (T ''loss'' (TensorShape (Some []))), Some (Op ''train''))
              | _ \<Rightarrow> (None, None, None))\<rparr>"

definition four_argument_model :: "(example_value, unit) model_function" where
  "four_argument_model =
     \<lparr>introspect = PyFunc (Some [''features'', ''targets'', ''mode'', ''params'']) None None,
      body = (\<lambda>c. case c of
                Call_mode_params fe te m ps \<Rightarrow>
                  (Some fe, Some (T ''loss'' (TensorShape (Some []))), Some (Op ''train''))
              | _ \<Rightarrow> (None, None, None))\<rparr>"

text \<open>
  \<^verbatim>\<open>def model_fn(features, targets)\<close> whose predictions are a dictionary with one
  entry, named \<open>loss\<close>.
\<close>

definition loss_named_model :: "(example_value, unit) model_function" where
  "loss_named_model =
     \<lparr>introspect = PyFunc (Some [''features'', ''targets'']) None None,
      body = (\<lambda>c. (Some (Dict [(''loss'', T ''logits'' (TensorShape (Some [None])))]),
                   Some (T ''xent'' (TensorShape (Some []))), None))\<rparr>"

text \<open>
  Raw arrays are named by strings, the array called \<open>tensor\<close> being a tensor; a feed
  function is a string as well. A signature is the list of the shapes of the tensors.
\<close>

definition example_feeder :: "(string, example_value, string) input_api" where
  "example_feeder =
     \<lparr>is_tensor = (\<lambda>x. x = ''tensor''),
      setup_train_data_feeder = (\<lambda>x y batch_size shuffle epochs.
        \<lparr>input_builder = (\<lambda>u. Features_targets (Tensor (T x (TensorShape (Some [None]))))
                                 (map_option (\<lambda>n. Tensor (T n (TensorShape (Some [None])))) y)),
         get_feed_dict_fn = ''feed_dict_fn''\<rparr>)\<rparr>"

definition shapes_of :: "example_value tensors \<Rightarrow> TensorShape list" where
  "shapes_of ts =
     (case ts of
        Tensor v \<Rightarrow> [get_shape example_tf v]
      | Dict d \<Rightarrow> map (\<lambda>(k, v). get_shape example_tf v) d)"

definition example_signatures :: "(example_value, TensorShape list) signature_api" where
  "example_signatures =
     \<lparr>tensors_compatible = (\<lambda>ts sig. list_all2 is_compatible_with (shapes_of ts) sig),
      create_signatures = (\<lambda>ts. Some (shapes_of ts)),
      create_placeholders_from_signatures = (\<lambda>sig. None)\<rparr>"

text \<open>
  An engine whose streaming mean of a tensor is the pair of a mean tensor and an update
  operation, whose training loop leaves one checkpoint in the output directory, and whose
  inference generator yields two batches of two rows and then signals the end of the
  input with \<^verbatim>\<open>OutOfRangeError\<close>.
\<close>

definition example_engine :: "(example_value, string, nat) engine" where
  "example_engine =
     \<lparr>streaming_mean = (\<lambda>v. case v of
          Some (T n s) \<Rightarrow> Sequence [T (''mean/'' @ n) (TensorShape (Some [])), Op (''update/'' @ n)]
        | _ \<Rightarrow> Sequence []),
      group = (\<lambda>vs. Op ''group''),
      monitored_train = (\<lambda>req store. (Some 0, store(req_output_dir req \<mapsto> ''model.ckpt-1''))),
      evaluate_graph = (\<lambda>req. (Some (map (\<lambda>(k, v). (k, Some 1)) (ev_eval_dict req)), Some 1)),
      infer = (\<lambda>path preds. map (\<lambda>(k, v). (k, [1, 2])) preds),
      run_feeds = (\<lambda>preds feeds path. [map (\<lambda>(k, v). (k, [1, 2])) preds]),
      run_feeds_iter = (\<lambda>preds feeds path.
        ([map (\<lambda>(k, v). (k, [1, 2])) preds, map (\<lambda>(k, v). (k, [3, 4])) preds],
         Raised OutOfRangeError)),
      np_concatenate = concat\<rparr>"

definition example_env ::
  "(string, example_value, TensorShape list, string, nat) collaborators" where
  "example_env =
     \<lparr>tensorflow = example_tf, feeder = example_feeder, tensor_signature = example_signatures,
      graph_actions = example_engine\<rparr>"

definition example_input_fn :: "example_value input_function" where
  "example_input_fn = (\<lambda>u. Features_targets (Tensor (T ''x'' (TensorShape (Some [None, Some 4]))))
                                (Some (Tensor (T ''y'' (TensorShape (Some [None]))))))"

text \<open>A world with no checkpoint anywhere, and one with a checkpoint in the model directory.\<close>

definition unfit_world :: world where
  "unfit_world = \<lparr>checkpoints = (\<lambda>dir. None), trace = []\<rparr>"

definition fit_world :: world where
  "fit_world = \<lparr>checkpoints = (\<lambda>dir. if dir = ''/tmp/model'' then Some ''model.ckpt-1'' else None),
                 trace = []\<rparr>"

section \<open>Properties\<close>

subsection \<open>The pandas adapter\<close>

lemma in_PANDAS_DTYPES_iff: "in_PANDAS_DTYPES n \<longleftrightarrow> n \<in> listed_dtype_names"
  by (simp add: in_PANDAS_DTYPES_def PANDAS_DTYPES_def listed_dtype_names_def)

lemma filter_label_distinct:
  "distinct (map fst cols) \<Longrightarrow> (c, d) \<in> set cols \<Longrightarrow>
     filter (\<lambda>(label, dtype). label = c) cols = [(c, d)]"
proof (induction cols)
  case Nil
  then show ?case by simp
next
  case (Cons p cols)
  obtain l e where p: "p = (l, e)" by (cases p)
  show ?case
  proof (cases "l = c")
    case True
    with Cons.prems p have "filter (\<lambda>(label, dtype). label = c) cols = []"
      by (auto simp add: filter_empty_conv image_iff)
    moreover from True Cons.prems p have "e = d"
      by (auto simp add: image_iff)
    ultimately show ?thesis using True p by simp
  next
    case False
    with Cons p show ?thesis by auto
  qed
qed

lemma dtype_name_distinct:
  "distinct (column_labels df) \<Longrightarrow> (c, d) \<in> set (columns df) \<Longrightarrow> dtype_name df c = Inr d"
  by (simp add: dtype_name_def column_labels_def filter_label_distinct)

lemma length_filter_label:
  "length (filter (\<lambda>l. l = c) (map fst cols))
     = length (filter (\<lambda>(label, dtype). label = c) cols)"
  by (induction cols) auto

lemma dtype_name_of_label:
  assumes "c \<in> set (column_labels df)"
  shows "(\<exists>d. dtype_name df c = Inr d) \<or> dtype_name df c = Inl (AttributeError ''dtype'')"
proof -
  from assms have "filter (\<lambda>(label, dtype). label = c) (columns df) \<noteq> []"
    by (auto simp add: column_labels_def filter_empty_conv)
  then show ?thesis
    by (auto simp add: dtype_name_def split: list.split)
qed

lemma dtype_name_repeated:
  assumes "2 \<le> length (filter (\<lambda>(label, dtype). label = c) (columns df))"
  shows "dtype_name df c = Inl (AttributeError ''dtype'')"
  using assms by (auto simp add: dtype_name_def split: list.split)

lemma bad_columns_repeated:
  assumes "set cs \<subseteq> set (column_labels df)"
    and "\<exists>c \<in> set cs. dtype_name df c = Inl (AttributeError ''dtype'')"
  shows "bad_columns df cs = Inl (AttributeError ''dtype'')"
  using assms
proof (induction cs)
  case Nil
  then show ?case by simp
next
  case (Cons c cs)
  from Cons.prems(1) have "c \<in> set (column_labels df)" by simp
  from dtype_name_of_label [OF this] show ?case
  proof
    assume "\<exists>d. dtype_name df c = Inr d"
    then obtain d where d: "dtype_name df c = Inr d" ..
    with Cons.prems have "\<exists>c \<in> set cs. dtype_name df c = Inl (AttributeError ''dtype'')"
      by auto
    with Cons have "bad_columns df cs = Inl (AttributeError ''dtype'')"
      by simp
    with d show ?thesis by simp
  next
    assume "dtype_name df c = Inl (AttributeError ''dtype'')"
    then show ?thesis by simp
  qed
qed

lemma not_distinct_repeated:
  "\<not> distinct ls \<Longrightarrow> \<exists>c \<in> set ls. 2 \<le> length (filter (\<lambda>l. l = c) ls)"
proof (induction ls)
  case Nil
  then show ?case by simp
next
  case (Cons l ls)
  show ?case
  proof (cases "l \<in> set ls")
    case True
    then have "filter (\<lambda>x. x = l) ls \<noteq> []"
      by (auto simp add: filter_empty_conv)
    then have "1 \<le> length (filter (\<lambda>x. x = l) ls)"
      by (cases "filter (\<lambda>x. x = l) ls") auto
    then have "2 \<le> length (filter (\<lambda>x. x = l) (l # ls))"
      by simp
    then show ?thesis
      by (intro bexI [of _ l]) simp_all
  next
    case False
    with Cons.prems have "\<not> distinct ls" by simp
    from Cons.IH [OF this] obtain c
      where c: "c \<in> set ls" and n: "2 \<le> length (filter (\<lambda>x. x = c) ls)"
      by blast
    from n have "2 \<le> length (filter (\<lambda>x. x = c) (l # ls))"
      by simp
    with c show ?thesis
      by (intro bexI [of _ c]) simp_all
  qed
qed

lemma extract_pandas_data_repeated_labels:
  assumes "\<not> distinct (column_labels df)"
  shows "extract_pandas_data astype (Frame df) = Inl (AttributeError ''dtype'')"
proof -
  from not_distinct_repeated [OF assms]
  obtain c where c: "c \<in> set (column_labels df)"
    and n: "2 \<le> length (filter (\<lambda>l. l = c) (column_labels df))"
    by blast
  from n have "2 \<le> length (filter (\<lambda>(label, dtype). label = c) (columns df))"
    unfolding column_labels_def length_filter_label .
  from dtype_name_repeated [OF this] c
  have "bad_columns df (column_labels df) = Inl (AttributeError ''dtype'')"
    by (intro bad_columns_repeated) auto
  then show ?thesis
    by (simp add: extract_pandas_data_def)
qed


lemma collect_Inr:
  "(\<forall>x \<in> set xs. \<exists>y. f x = Inr y) \<Longrightarrow> \<exists>ys. collect f xs = Inr ys"
  by (induction xs) auto

lemma bad_columns_distinct:
  assumes "distinct (column_labels df)" and "set cs \<subseteq> set (column_labels df)"
  shows "\<exists>bad. bad_columns df cs = Inr bad \<and>
           set bad = {c \<in> set cs. \<exists>d. (c, d) \<in> set (columns df) \<and> d \<notin> listed_dtype_names}"
  using assms(2)
proof (induction cs)
  case Nil
  then show ?case by simp
next
  case (Cons c cs)
  then obtain bad where bad: "bad_columns df cs = Inr bad"
    and sb: "set bad = {c \<in> set cs. \<exists>d. (c, d) \<in> set (columns df) \<and> d \<notin> listed_dtype_names}"
    by auto
  from Cons.prems obtain d where d: "(c, d) \<in> set (columns df)"
    by (auto simp add: column_labels_def)
  note dn = dtype_name_distinct [OF assms(1) d]
  have u: "d' = d" if "(c, d') \<in> set (columns df)" for d'
    using dtype_name_distinct [OF assms(1) that] dn by simp
  show ?case
  proof (cases "d \<in> listed_dtype_names")
    case True
    with bad sb dn u show ?thesis
      by (auto simp add: in_PANDAS_DTYPES_iff)
  next
    case False
    with bad sb dn d show ?thesis
      by (auto simp add: in_PANDAS_DTYPES_iff)
  qed
qed

lemma extract_pandas_data_distinct_labels:
  assumes "distinct (column_labels df)"
  shows "((\<forall>(c, d) \<in> set (columns df). d \<in> listed_dtype_names) \<longrightarrow>
            extract_pandas_data astype (Frame df)
              = Inr (NdArray (astype ''float'' (frame_values df)))) \<and>
         (is_ValueError (extract_pandas_data astype (Frame df)) \<longleftrightarrow>
            (\<exists>(c, d) \<in> set (columns df). d \<notin> listed_dtype_names))"
proof -
  from bad_columns_distinct [OF assms, of "column_labels df"]
  obtain bad where bad: "bad_columns df (column_labels df) = Inr bad"
    and sb: "set bad = {c \<in> set (column_labels df).
                         \<exists>d. (c, d) \<in> set (columns df) \<and> d \<notin> listed_dtype_names}"
    by auto
  have e: "bad = [] \<longleftrightarrow> (\<forall>(c, d) \<in> set (columns df). d \<in> listed_dtype_names)"
  proof -
    have "bad = [] \<longleftrightarrow> set bad = {}" by simp
    also have "\<dots> \<longleftrightarrow> (\<forall>(c, d) \<in> set (columns df). d \<in> listed_dtype_names)"
      unfolding sb by (force simp add: column_labels_def)
    finally show ?thesis .
  qed
  have "\<forall>c \<in> set bad. \<exists>y. (case dtype_name df c of
                           Inl e \<Rightarrow> Inl e
                         | Inr name \<Rightarrow>
                             Inr ([CHR 0x27] @ c @ [CHR 0x27] @ '' type='' @ [CHR 0x27]
                                    @ name @ [CHR 0x27])) = Inr y"
    unfolding sb using dtype_name_distinct [OF assms] by auto
  from collect_Inr [OF this]
  obtain error_report where "collect (\<lambda>column.
                         case dtype_name df column of
                           Inl e \<Rightarrow> Inl e
                         | Inr name \<Rightarrow>
                             Inr ([CHR 0x27] @ column @ [CHR 0x27] @ '' type='' @ [CHR 0x27]
                                    @ name @ [CHR 0x27])) bad = Inr error_report"
    by blast
  with bad e show ?thesis
    by (auto simp add: extract_pandas_data_def)
qed

lemma extract_pandas_data_not_frame:
  "extract_pandas_data astype (NdArray a) = Inr (NdArray a)"
  "extract_pandas_data astype (Other v) = Inr (Other v)"
  by (simp_all add: extract_pandas_data_def)

text \<open>
  Claim C10 fails on the code for a frame with a repeated column label: the claim has
  \<^verbatim>\<open>extract_pandas_data\<close> return the values cast to float when the dtype of every
  column is listed, and raise nothing but ValueError. For the frame of two \<open>int64\<close>
  columns both labelled \<open>a\<close> the code evaluates \<^verbatim>\<open>data['a'].dtype\<close> on a
  \<^verbatim>\<open>DataFrame\<close> and raises AttributeError. On frames with distinct labels, and on
  everything that is not a frame, the code does what the claim says
  (\<open>extract_pandas_data_distinct_labels\<close>, \<open>extract_pandas_data_not_frame\<close>).
\<close>

theorem extract_pandas_data_repeated_label:
  "extract_pandas_data (\<lambda>name a. a)
     (Frame \<lparr>columns = [(''a'', ''int64''), (''a'', ''int64'')],
             frame_values = [[1, 2 :: int]]\<rparr> :: (int list list, unit) pydata)
   = Inl (AttributeError ''dtype'') \<and>
   ''int64'' \<in> listed_dtype_names"
  by (simp add: extract_pandas_data_def column_labels_def dtype_name_def listed_dtype_names_def)

subsection \<open>The model function invoker\<close>

lemma call_model_fn_unfold:
  assumes "model_fn self = Some f" and "get_arguments (introspect f) = Some args"
    and "feature_engineering_fn self features targets = (fe, te)"
    and "body f (model_fn_call args fe te mode (params self)) = (predictions, loss, train_op)"
  shows "call_model_fn tf self features targets mode =
     (case validate_train_op tf mode train_op of Inl e \<Rightarrow> Inl e | Inr t \<Rightarrow>
      case validate_loss tf mode loss of Inl e \<Rightarrow> Inl e | Inr l \<Rightarrow>
      case validate_predictions tf mode predictions of Inl e \<Rightarrow> Inl e | Inr p \<Rightarrow>
      Inr (p, l, t))"
  using assms by (simp add: call_model_fn_def)

lemma validate_train_op_cases:
  "validate_train_op tf mode None = (if mode = TRAIN then Inl (ValueError ''Missing train_op.'') else Inr None)"
  "\<exists>t'. validate_train_op tf mode (Some t) = Inr (Some t')"
  by (simp_all add: validate_train_op_def)

lemma validate_predictions_cases:
  "validate_predictions tf mode None = (if mode = INFER then Inl (ValueError ''Missing predictions.'') else Inr None)"
  "\<exists>p'. validate_predictions tf mode (Some p) = Inr (Some p')"
  by (simp_all add: validate_predictions_def split: tensors.split)

lemma validate_loss_cases:
  "validate_loss tf mode None = (if mode \<in> {TRAIN, EVAL} then Inl (ValueError ''Missing loss.'') else Inr None)"
  "num_elements (get_shape tf (convert_to_tensor tf l)) \<notin> {None, Some 1} \<Longrightarrow> validate_loss tf mode (Some l) = Inl (ValueError ''Loss must be scalar: %s.'')"
  "num_elements (get_shape tf (convert_to_tensor tf l)) \<in> {None, Some 1} \<Longrightarrow> \<exists>l'. validate_loss tf mode (Some l) = Inr (Some l')"
  by (simp_all add: validate_loss_def Let_def)

lemma scalar_compat: "is_compatible_with s scalar \<longleftrightarrow> rank s = None \<or> rank s = Some 0"
  by (cases s) (auto simp: is_compatible_with_def scalar_def rank_def split: option.splits)

lemma rank0_num_elements: "rank s = Some 0 \<Longrightarrow> num_elements s = Some 1"
  by (cases s) (auto simp: num_elements_def rank_def)

lemma num_elements_Some_rank: "num_elements s = Some n \<Longrightarrow> rank s \<noteq> None"
  by (cases s) (auto simp: num_elements_def rank_def split: option.splits)

text \<open>
  Claim C4. Let the invocation of the user model function return
  \<open>(predictions, loss, train_op)\<close>. A \<open>train_op\<close> of \<open>None\<close> in TRAIN mode raises
  ValueError "Missing train\_op."; a \<open>loss\<close> of \<open>None\<close> in TRAIN or EVAL mode raises
  ValueError ("Missing loss.", unless the check of the train\_op has raised before it);
  \<open>predictions\<close> of \<open>None\<close> in INFER mode raises ValueError ("Missing predictions.",
  unless the check of the loss has raised "Loss must be scalar" before it). In every other
  mode a \<open>None\<close> is accepted: when no output is missing in a mode that requires it and
  the loss, if there is one, has at most one element, the call returns, and an output that
  was \<open>None\<close> is returned as \<open>None\<close>.
\<close>

theorem call_model_fn_required_outputs:
  assumes "model_fn self = Some f" and "get_arguments (introspect f) = Some args"
    and "feature_engineering_fn self features targets = (fe, te)"
    and "body f (model_fn_call args fe te mode (params self)) = (predictions, loss, train_op)"
  shows
   "(train_op = None \<and> mode = TRAIN \<longrightarrow>
       call_model_fn tf self features targets mode = Inl (ValueError ''Missing train_op.'')) \<and>
    (loss = None \<and> mode \<in> {TRAIN, EVAL} \<longrightarrow>
       call_model_fn tf self features targets mode =
         Inl (ValueError (if train_op = None \<and> mode = TRAIN then ''Missing train_op.''
                          else ''Missing loss.''))) \<and>
    (predictions = None \<and> mode = INFER \<longrightarrow>
       call_model_fn tf self features targets mode =
         Inl (ValueError
           (if \<exists>l. loss = Some l \<and>
                   num_elements (get_shape tf (convert_to_tensor tf l)) \<notin> {None, Some 1}
            then ''Loss must be scalar: %s.'' else ''Missing predictions.''))) \<and>
    ((train_op = None \<longrightarrow> mode \<noteq> TRAIN) \<and> (loss = None \<longrightarrow> mode = INFER) \<and>
     (predictions = None \<longrightarrow> mode \<noteq> INFER) \<and>
     (\<forall>l. loss = Some l \<longrightarrow>
            num_elements (get_shape tf (convert_to_tensor tf l)) \<in> {None, Some 1}) \<longrightarrow>
       (\<exists>p l t. call_model_fn tf self features targets mode = Inr (p, l, t) \<and>
          (predictions = None \<longleftrightarrow> p = None) \<and> (loss = None \<longleftrightarrow> l = None) \<and>
          (train_op = None \<longleftrightarrow> t = None)))"
proof (intro conjI impI)
  note unfold = call_model_fn_unfold [OF assms, of tf]
  show "call_model_fn tf self features targets mode = Inl (ValueError ''Missing train_op.'')"
    if "train_op = None \<and> mode = TRAIN"
    unfolding unfold using that by (simp add: validate_train_op_def)
  show "call_model_fn tf self features targets mode =
         Inl (ValueError (if train_op = None \<and> mode = TRAIN then ''Missing train_op.''
                          else ''Missing loss.''))"
    if "loss = None \<and> mode \<in> {TRAIN, EVAL}"
    unfolding unfold using that by (cases train_op) (auto simp add: validate_train_op_def validate_loss_def)
  show "call_model_fn tf self features targets mode =
         Inl (ValueError
           (if \<exists>l. loss = Some l \<and>
                   num_elements (get_shape tf (convert_to_tensor tf l)) \<notin> {None, Some 1}
            then ''Loss must be scalar: %s.'' else ''Missing predictions.''))"
    if "predictions = None \<and> mode = INFER"
    unfolding unfold using that
    by (cases train_op; cases loss)
       (auto simp add: validate_train_op_def validate_loss_def validate_predictions_def Let_def)
  show "\<exists>p l t. call_model_fn tf self features targets mode = Inr (p, l, t) \<and>
          (predictions = None \<longleftrightarrow> p = None) \<and> (loss = None \<longleftrightarrow> l = None) \<and>
          (train_op = None \<longleftrightarrow> t = None)"
    if ok: "(train_op = None \<longrightarrow> mode \<noteq> TRAIN) \<and> (loss = None \<longrightarrow> mode = INFER) \<and>
     (predictions = None \<longrightarrow> mode \<noteq> INFER) \<and>
     (\<forall>l. loss = Some l \<longrightarrow>
            num_elements (get_shape tf (convert_to_tensor tf l)) \<in> {None, Some 1})"
  proof -
    have "\<exists>t. validate_train_op tf mode train_op = Inr t \<and> (train_op = None \<longleftrightarrow> t = None)"
      using ok by (cases train_op) (simp_all add: validate_train_op_def)
    then obtain t where t: "validate_train_op tf mode train_op = Inr t" "train_op = None \<longleftrightarrow> t = None"
      by blast
    have "\<exists>l. validate_loss tf mode loss = Inr l \<and> (loss = None \<longleftrightarrow> l = None)"
      using ok by (cases loss) (auto simp add: validate_loss_def Let_def)
    then obtain l where l: "validate_loss tf mode loss = Inr l" "loss = None \<longleftrightarrow> l = None"
      by blast
    have "\<exists>p. validate_predictions tf mode predictions = Inr p \<and> (predictions = None \<longleftrightarrow> p = None)"
      using ok by (cases predictions) (simp_all add: validate_predictions_def split: tensors.split)
    then obtain p where p: "validate_predictions tf mode predictions = Inr p" "predictions = None \<longleftrightarrow> p = None"
      by blast
    show ?thesis
      unfolding unfold using t l p by simp
  qed
qed

text \<open>
  Claim C5. Let the model function return a loss that is not \<open>None\<close>. In every mode, a
  loss whose shape has more than one element raises ValueError ("Loss must be scalar",
  unless TRAIN mode has already raised for a missing train\_op). When the other two outputs
  pass their checks, a loss of exactly one element that is not of rank 0 is returned
  reshaped to \<open>[]\<close>, and a loss of rank 0 is returned as \<^verbatim>\<open>convert_to_tensor\<close> gave it.
\<close>

theorem call_model_fn_loss_shape:
  assumes "model_fn self = Some f" and "get_arguments (introspect f) = Some args"
    and "feature_engineering_fn self features targets = (fe, te)"
    and "body f (model_fn_call args fe te mode (params self)) = (predictions, Some l, train_op)"
  shows
   "(\<forall>n. num_elements (get_shape tf (convert_to_tensor tf l)) = Some n \<and> 1 < n \<longrightarrow>
       call_model_fn tf self features targets mode =
         Inl (ValueError (if train_op = None \<and> mode = TRAIN then ''Missing train_op.''
                          else ''Loss must be scalar: %s.''))) \<and>
    ((train_op = None \<longrightarrow> mode \<noteq> TRAIN) \<and> (predictions = None \<longrightarrow> mode \<noteq> INFER) \<longrightarrow>
       (num_elements (get_shape tf (convert_to_tensor tf l)) = Some 1 \<and>
        rank (get_shape tf (convert_to_tensor tf l)) \<noteq> Some 0 \<longrightarrow>
          (\<exists>p t. call_model_fn tf self features targets mode =
                   Inr (p, Some (reshape tf (convert_to_tensor tf l) []), t))) \<and>
       (rank (get_shape tf (convert_to_tensor tf l)) = Some 0 \<longrightarrow>
          (\<exists>p t. call_model_fn tf self features targets mode =
                   Inr (p, Some (convert_to_tensor tf l), t))))"
proof -
  note unfold = call_model_fn_unfold [OF assms, of tf]
  let ?sh = "get_shape tf (convert_to_tensor tf l)"
  have a: "call_model_fn tf self features targets mode =
         Inl (ValueError (if train_op = None \<and> mode = TRAIN then ''Missing train_op.''
                          else ''Loss must be scalar: %s.''))"
    if "num_elements ?sh = Some n \<and> 1 < n" for n
    unfolding unfold using that
    by (cases train_op) (auto simp add: validate_train_op_def validate_loss_def Let_def)
  have b: "\<exists>p t. call_model_fn tf self features targets mode =
                   Inr (p, Some (reshape tf (convert_to_tensor tf l) []), t)"
    if ok: "(train_op = None \<longrightarrow> mode \<noteq> TRAIN) \<and> (predictions = None \<longrightarrow> mode \<noteq> INFER)"
      and sh: "num_elements ?sh = Some 1 \<and> rank ?sh \<noteq> Some 0"
  proof -
    from sh have "rank ?sh \<noteq> None"
      using num_elements_Some_rank by blast
    with sh have "\<not> is_compatible_with ?sh scalar"
      by (simp add: scalar_compat)
    with sh have l: "validate_loss tf mode (Some l) = Inr (Some (reshape tf (convert_to_tensor tf l) []))"
      by (simp add: validate_loss_def Let_def)
    have "\<exists>t. validate_train_op tf mode train_op = Inr t"
      using ok by (cases train_op) (simp_all add: validate_train_op_def)
    moreover have "\<exists>p. validate_predictions tf mode predictions = Inr p"
      using ok by (cases predictions) (simp_all add: validate_predictions_def split: tensors.split)
    ultimately show ?thesis
      unfolding unfold using l by auto
  qed
  have c: "\<exists>p t. call_model_fn tf self features targets mode =
                   Inr (p, Some (convert_to_tensor tf l), t)"
    if ok: "(train_op = None \<longrightarrow> mode \<noteq> TRAIN) \<and> (predictions = None \<longrightarrow> mode \<noteq> INFER)"
      and sh: "rank ?sh = Some 0"
  proof -
    from sh have "is_compatible_with ?sh scalar" "num_elements ?sh = Some 1"
      by (simp_all add: scalar_compat rank0_num_elements)
    then have l: "validate_loss tf mode (Some l) = Inr (Some (convert_to_tensor tf l))"
      by (simp add: validate_loss_def Let_def)
    have "\<exists>t. validate_train_op tf mode train_op = Inr t"
      using ok by (cases train_op) (simp_all add: validate_train_op_def)
    moreover have "\<exists>p. validate_predictions tf mode predictions = Inr p"
      using ok by (cases predictions) (simp_all add: validate_predictions_def split: tensors.split)
    ultimately show ?thesis
      unfolding unfold using l by auto
  qed
  from a b c show ?thesis
    by (intro conjI allI impI)
qed

text \<open>
  Claim C6. The model function is dispatched by its declared arity. For a model function
  of one of the three documented signatures, whose declared arguments are two names other
  than \<open>mode\<close> and \<open>params\<close>, followed by \<open>mode\<close> for the second signature and by
  \<open>mode\<close> and \<open>params\<close> for the third: with 2 declared arguments it is called with
  \<open>(features, targets)\<close>, with 3 it is also passed the mode, with 4 it is also passed the
  mode and \<^verbatim>\<open>self.params\<close>. The features and targets are those the feature engineering
  function returned, and what the call returns goes through the three validation blocks.
\<close>

theorem call_model_fn_dispatch:
  assumes "model_fn self = Some f" and "get_arguments (introspect f) = Some args"
    and "feature_engineering_fn self features targets = (fe, te)"
    and "args = [a, b] \<or> args = [a, b, ''mode''] \<or> args = [a, b, ''mode'', ''params'']"
    and "a \<notin> {''mode'', ''params''}" and "b \<notin> {''mode'', ''params''}"
  shows
   "call_model_fn tf self features targets mode =
      (case body f
              (if length args = 2 then Call_features_targets fe te
               else if length args = 3 then Call_mode fe te mode
               else Call_mode_params fe te mode (params self)) of
         (predictions, loss, train_op) \<Rightarrow>
           (case validate_train_op tf mode train_op of Inl e \<Rightarrow> Inl e | Inr t \<Rightarrow>
            case validate_loss tf mode loss of Inl e \<Rightarrow> Inl e | Inr l \<Rightarrow>
            case validate_predictions tf mode predictions of Inl e \<Rightarrow> Inl e | Inr p \<Rightarrow>
            Inr (p, l, t)))"
  using assms by (auto simp add: call_model_fn_def model_fn_call_def)

theorem call_model_fn_required_outputs_witness:
  "call_model_fn example_tf (example_estimator None mode_model) (Tensor (T ''x'' scalar)) None TRAIN
     = Inl (ValueError ''Missing train_op.'') \<and>
   (\<exists>p l. call_model_fn example_tf (example_estimator None mode_model) (Tensor (T ''x'' scalar)) None EVAL
     = Inr (p, l, None) \<and> p = None \<and> l \<noteq> None) \<and>
   (\<exists>p. call_model_fn example_tf (example_estimator None mode_model) (Tensor (T ''x'' scalar)) None INFER
     = Inr (p, None, None) \<and> p \<noteq> None)"
proof -
  let ?self = "example_estimator None mode_model"
  let ?x = "Tensor (T ''x'' scalar)"
  have 1: "model_fn ?self = Some mode_model"
    and 2: "get_arguments (introspect mode_model) = Some [''features'', ''targets'', ''mode'']"
    and 3: "feature_engineering_fn ?self ?x None = (?x, None)"
    by (simp_all add: example_estimator_def mode_model_def identity_feature_engineering_fn_def)
  have train: "body mode_model (model_fn_call [''features'', ''targets'', ''mode''] ?x None TRAIN (params ?self))
                = (None, Some (T ''loss'' (TensorShape (Some []))), None)"
    and eval: "body mode_model (model_fn_call [''features'', ''targets'', ''mode''] ?x None EVAL (params ?self))
                = (None, Some (T ''loss'' (TensorShape (Some [Some 1]))), None)"
    and infer: "body mode_model (model_fn_call [''features'', ''targets'', ''mode''] ?x None INFER (params ?self))
                = (Some ?x, None, None)"
    by (simp_all add: mode_model_def model_fn_call_def)
  have sh: "num_elements (get_shape example_tf (convert_to_tensor example_tf (T ''loss'' (TensorShape (Some [Some 1]))))) = Some 1"
    by (simp add: example_tf_def num_elements_def)
  from call_model_fn_required_outputs [OF 1 2 3 train, of example_tf]
  have a: "call_model_fn example_tf ?self ?x None TRAIN = Inl (ValueError ''Missing train_op.'')"
    by simp
  from call_model_fn_required_outputs [OF 1 2 3 eval, of example_tf] sh
  have b: "\<exists>p l. call_model_fn example_tf ?self ?x None EVAL = Inr (p, l, None) \<and> p = None \<and> l \<noteq> None"
    by simp
  from call_model_fn_required_outputs [OF 1 2 3 infer, of example_tf]
  have c: "\<exists>p. call_model_fn example_tf ?self ?x None INFER = Inr (p, None, None) \<and> p \<noteq> None"
    by simp
  from a b c show ?thesis by (intro conjI)
qed

theorem call_model_fn_loss_shape_witness:
  "call_model_fn example_tf (example_estimator None (shape_model (TensorShape (Some [Some 2]))))
       (Tensor (T ''x'' scalar)) None INFER
     = Inl (ValueError ''Loss must be scalar: %s.'') \<and>
   (\<exists>p t. call_model_fn example_tf (example_estimator None (shape_model (TensorShape (Some [Some 1, Some 1]))))
       (Tensor (T ''x'' scalar)) None TRAIN
     = Inr (p, Some (T ''loss'' (TensorShape (Some []))), t)) \<and>
   (\<exists>p t. call_model_fn example_tf (example_estimator None (shape_model (TensorShape (Some []))))
       (Tensor (T ''x'' scalar)) None EVAL
     = Inr (p, Some (T ''loss'' (TensorShape (Some []))), t))"
proof -
  let ?x = "Tensor (T ''x'' scalar)"
  have 1: "model_fn (example_estimator None (shape_model sh)) = Some (shape_model sh)"
    and 2: "get_arguments (introspect (shape_model sh)) = Some [''features'', ''targets'']"
    and 3: "feature_engineering_fn (example_estimator None (shape_model sh)) ?x None = (?x, None)"
    and 4: "body (shape_model sh) (model_fn_call [''features'', ''targets''] ?x None mode
                (params (example_estimator None (shape_model sh))))
             = (Some (Dict [(''classes'', T ''argmax'' (TensorShape (Some [None])))]),
                Some (T ''loss'' sh), Some (Op ''train''))" for sh mode
    by (simp_all add: example_estimator_def shape_model_def identity_feature_engineering_fn_def)
  have a: "call_model_fn example_tf (example_estimator None (shape_model (TensorShape (Some [Some 2]))))
       ?x None INFER = Inl (ValueError ''Loss must be scalar: %s.'')"
    using call_model_fn_loss_shape [OF 1 2 3 4, of example_tf "TensorShape (Some [Some 2])" INFER]
    by (simp add: example_tf_def num_elements_def)
  have b: "\<exists>p t. call_model_fn example_tf (example_estimator None (shape_model (TensorShape (Some [Some 1, Some 1]))))
       ?x None TRAIN = Inr (p, Some (T ''loss'' (TensorShape (Some []))), t)"
    using call_model_fn_loss_shape [OF 1 2 3 4, of example_tf "TensorShape (Some [Some 1, Some 1])" TRAIN]
    by (simp add: example_tf_def num_elements_def rank_def)
  have c: "\<exists>p t. call_model_fn example_tf (example_estimator None (shape_model (TensorShape (Some []))))
       ?x None EVAL = Inr (p, Some (T ''loss'' (TensorShape (Some []))), t)"
    using call_model_fn_loss_shape [OF 1 2 3 4, of example_tf "TensorShape (Some [])" EVAL]
    by (simp add: example_tf_def num_elements_def rank_def)
  from a b c show ?thesis by (intro conjI)
qed

theorem call_model_fn_dispatch_witness:
  "call_model_fn example_tf (example_estimator None two_argument_model) (Tensor (T ''x'' scalar)) None TRAIN
     = Inr (Some (Tensor (T ''x'' scalar)), Some (T ''loss'' (TensorShape (Some []))), Some (Op ''train'')) \<and>
   call_model_fn example_tf (example_estimator None mode_model) (Tensor (T ''x'' scalar)) None INFER
     = Inr (Some (Tensor (T ''x'' scalar)), None, None) \<and>
   call_model_fn example_tf (example_estimator None four_argument_model) (Tensor (T ''x'' scalar)) None TRAIN
     = Inr (Some (Tensor (T ''x'' scalar)), Some (T ''loss'' (TensorShape (Some []))), Some (Op ''train''))"
proof -
  let ?x = "Tensor (T ''x'' scalar)"
  have 1: "model_fn (example_estimator None m) = Some m"
    and 3: "feature_engineering_fn (example_estimator None m) ?x None = (?x, None)" for m
    by (simp_all add: example_estimator_def identity_feature_engineering_fn_def)
  have a2: "get_arguments (introspect two_argument_model) = Some [''features'', ''targets'']"
    and a3: "get_arguments (introspect mode_model) = Some [''features'', ''targets'', ''mode'']"
    and a4: "get_arguments (introspect four_argument_model)
               = Some [''features'', ''targets'', ''mode'', ''params'']"
    by (simp_all add: two_argument_model_def mode_model_def four_argument_model_def)
  have d2: "[''features'', ''targets''] = [''features'', ''targets'']
            \<or> [''features'', ''targets''] = [''features'', ''targets'', ''mode'']
            \<or> [''features'', ''targets''] = [''features'', ''targets'', ''mode'', ''params'']"
    and d3: "[''features'', ''targets'', ''mode''] = [''features'', ''targets'']
            \<or> [''features'', ''targets'', ''mode''] = [''features'', ''targets'', ''mode'']
            \<or> [''features'', ''targets'', ''mode''] = [''features'', ''targets'', ''mode'', ''params'']"
    and d4: "[''features'', ''targets'', ''mode'', ''params''] = [''features'', ''targets'']
            \<or> [''features'', ''targets'', ''mode'', ''params''] = [''features'', ''targets'', ''mode'']
            \<or> [''features'', ''targets'', ''mode'', ''params'']
                = [''features'', ''targets'', ''mode'', ''params'']"
    by simp_all
  have n: "''features'' \<notin> {''mode'', ''params''}" "''targets'' \<notin> {''mode'', ''params''}"
    by simp_all
  have v: "validate_train_op example_tf m None = (if m = TRAIN then Inl (ValueError ''Missing train_op.'') else Inr None)"
    "validate_train_op example_tf m (Some (Op ''train'')) = Inr (Some (Op ''train''))"
    "validate_loss example_tf INFER None = Inr None"
    "validate_loss example_tf m (Some (T ''loss'' (TensorShape (Some []))))
       = Inr (Some (T ''loss'' (TensorShape (Some []))))"
    "validate_predictions example_tf m (Some ?x) = Inr (Some ?x)" for m
    by (simp_all add: validate_train_op_def validate_loss_def validate_predictions_def
          example_tf_def num_elements_def is_compatible_with_def scalar_def)
  have r2: "call_model_fn example_tf (example_estimator None two_argument_model) ?x None TRAIN
     = Inr (Some ?x, Some (T ''loss'' (TensorShape (Some []))), Some (Op ''train''))"
    unfolding call_model_fn_dispatch [OF 1 a2 3 d2 n, of example_tf TRAIN]
    by (simp add: two_argument_model_def v)
  have r3: "call_model_fn example_tf (example_estimator None mode_model) ?x None INFER
     = Inr (Some ?x, None, None)"
    unfolding call_model_fn_dispatch [OF 1 a3 3 d3 n, of example_tf INFER]
    by (simp add: mode_model_def v)
  have r4: "call_model_fn example_tf (example_estimator None four_argument_model) ?x None TRAIN
     = Inr (Some ?x, Some (T ''loss'' (TensorShape (Some []))), Some (Op ''train''))"
    unfolding call_model_fn_dispatch [OF 1 a4 3 d4 n, of example_tf TRAIN]
    by (simp add: four_argument_model_def v)
  from r2 r3 r4 show ?thesis by (intro conjI)
qed

subsection \<open>The input adapter\<close>

lemma get_input_fn_conflict:
  assumes "(input_fn \<noteq> None \<and> (x \<noteq> None \<or> y \<noteq> None)) \<or> (input_fn \<noteq> None \<and> batch_size \<noteq> None)
           \<or> (input_fn = None \<and> x = None)"
  shows "get_input_fn api x y input_fn feed_fn batch_size shuffle epochs =
     Inl (ValueError
       (if input_fn = None then ''Either x or input_fn must be provided.''
        else if x \<noteq> None \<or> y \<noteq> None then ''Can not provide both input_fn and x or y.''
        else ''Can not provide both input_fn and batch_size.''))"
  using assms by (auto simp add: get_input_fn_def split: option.splits)

text \<open>
  Claim C2. A call of \<^verbatim>\<open>fit\<close>, \<^verbatim>\<open>evaluate\<close> or \<^verbatim>\<open>predict\<close> that supplies \<^verbatim>\<open>x\<close> or
  \<^verbatim>\<open>y\<close> together with \<^verbatim>\<open>input_fn\<close>, or \<^verbatim>\<open>batch_size\<close> together with
  \<^verbatim>\<open>input_fn\<close>, or neither \<^verbatim>\<open>x\<close> nor \<^verbatim>\<open>input_fn\<close>, raises ValueError, and leaves
  the estimator and the world as they were. (\<^verbatim>\<open>predict\<close> has no argument \<^verbatim>\<open>y\<close>.)
\<close>

theorem conflicting_arguments_raise:
  assumes "(input_fn \<noteq> None \<and> (x \<noteq> None \<or> y \<noteq> None)) \<or> (input_fn \<noteq> None \<and> batch_size \<noteq> None)
           \<or> (input_fn = None \<and> x = None)"
  shows
   "get_input_fn api x y input_fn feed_fn batch_size shuffle epochs =
     Inl (ValueError
       (if input_fn = None then ''Either x or input_fn must be provided.''
        else if x \<noteq> None \<or> y \<noteq> None then ''Can not provide both input_fn and x or y.''
        else ''Can not provide both input_fn and batch_size.'')) \<and>
    (\<exists>m. fit env methods x y input_fn steps batch_size monitors max_steps self w
           = (Inl (ValueError m), self, w)) \<and>
    (\<exists>m. evaluate env methods x y input_fn feed_fn batch_size steps metrics name self w
           = (Inl (ValueError m), self, w)) \<and>
    (y = None \<longrightarrow>
      (\<exists>m. predict env methods x input_fn batch_size outputs as_iterable self w
           = (Inl (ValueError m), self, w)))"
proof -
  note c = get_input_fn_conflict [OF assms]
  have p: "\<exists>m. predict env methods x input_fn batch_size outputs as_iterable self w
           = (Inl (ValueError m), self, w)" if "y = None"
  proof -
    show ?thesis
      by (simp add: predict_def get_input_fn_conflict [OF assms [unfolded that]])
  qed
  have f: "\<exists>m. fit env methods x y input_fn steps batch_size monitors max_steps self w
           = (Inl (ValueError m), self, w)"
    by (simp add: c fit_def)
  have e: "\<exists>m. evaluate env methods x y input_fn feed_fn batch_size steps metrics name self w
           = (Inl (ValueError m), self, w)"
    by (simp add: c evaluate_def)
  from c f e p show ?thesis
    by (intro conjI impI)
qed

theorem conflicting_arguments_raise_witness:
  "(\<exists>m. fit example_env (Estimator_methods example_env) (Some ''x'') None (Some example_input_fn)
           None None None None (example_estimator None mode_model) unfit_world
        = (Inl (ValueError m), example_estimator None mode_model, unfit_world)) \<and>
   (\<exists>m. predict example_env (Estimator_methods example_env) None None None None True
           (example_estimator None mode_model) unfit_world
        = (Inl (ValueError m), example_estimator None mode_model, unfit_world))"
proof -
  have h1: "(Some example_input_fn \<noteq> None \<and> (Some ''x'' \<noteq> None \<or> (None :: string option) \<noteq> None))
          \<or> (Some example_input_fn \<noteq> None \<and> (None :: nat option) \<noteq> None)
          \<or> (Some example_input_fn = None \<and> Some ''x'' = None)"
    by simp
  have h2: "((None :: example_value input_function option) \<noteq> None
              \<and> ((None :: string option) \<noteq> None \<or> (None :: string option) \<noteq> None))
          \<or> ((None :: example_value input_function option) \<noteq> None \<and> (None :: nat option) \<noteq> None)
          \<or> ((None :: example_value input_function option) = None \<and> (None :: string option) = None)"
    by simp
  from conflicting_arguments_raise [OF h1, THEN conjunct2, THEN conjunct1]
  have a: "\<exists>m. fit example_env (Estimator_methods example_env) (Some ''x'') None (Some example_input_fn)
           None None None None (example_estimator None mode_model) unfit_world
        = (Inl (ValueError m), example_estimator None mode_model, unfit_world)" .
  from conflicting_arguments_raise [OF h2, THEN conjunct2, THEN conjunct2, THEN conjunct2, THEN mp, OF refl]
  have b: "\<exists>m. predict example_env (Estimator_methods example_env) None None None None True
           (example_estimator None mode_model) unfit_world
        = (Inl (ValueError m), example_estimator None mode_model, unfit_world)" .
  from a b show ?thesis by (rule conjI)
qed

subsection \<open>The signature checker\<close>











subsection \<open>The estimator lifecycle\<close>

lemma get_input_fn_raises_ValueError:
  "get_input_fn api x y input_fn feed_fn batch_size shuffle epochs = Inl e \<Longrightarrow> \<exists>m. e = ValueError m"
  by (auto simp add: get_input_fn_def Let_def split: option.splits if_splits)

lemma evaluate_model_excluded:
  "evaluation_excluded (config self) \<Longrightarrow>
     evaluate_model env methods input_fn steps feed_fn metrics name self w = (Inr (None, None), self, w)"
  by (simp add: evaluate_model_def)

lemma evaluate_model_not_fitted:
  "\<not> evaluation_excluded (config self) \<Longrightarrow> falsy (checkpoints w (model_dir self)) \<Longrightarrow>
     evaluate_model env methods input_fn steps feed_fn metrics name self w =
       (Inl (NotFittedError (''Couldn'' @ [CHR 0x27] @ ''t find trained model at %s.'')), self,
        w\<lparr>trace := Latest_checkpoint (model_dir self) # trace w\<rparr>)"
  by (simp add: evaluate_model_def latest_checkpoint_def)

lemma infer_model_not_fitted:
  "falsy (checkpoints w (model_dir self)) \<Longrightarrow>
     infer_model env methods input_fn feed_fn outputs as_iterable self w =
       (Inl (NotFittedError (''Couldn'' @ [CHR 0x27] @ ''t find trained model at %s.'')), self,
        w\<lparr>trace := Latest_checkpoint (model_dir self) # trace w\<rparr>)"
  by (simp add: infer_model_def latest_checkpoint_def)

text \<open>
  Claim C9. When the configuration has an \<^verbatim>\<open>execution_mode\<close> that is not \<open>all\<close>,
  \<open>evaluate\<close> or \<open>eval_evalset\<close>, \<^verbatim>\<open>_evaluate_model\<close> returns \<^verbatim>\<open>(None, None)\<close> and
  \<^verbatim>\<open>evaluate\<close>, once its arguments have passed the input adapter and the test of
  \<^verbatim>\<open>metrics\<close>, returns \<^verbatim>\<open>None\<close>. In every case the estimator and the world are left as
  they were, so no checkpoint has been looked up and no graph built, and the not-fitted
  error is not raised, whatever the checkpoint store holds.
\<close>

theorem evaluate_excluded_returns_None:
  assumes "execution_mode (config self) = Some em"
    and "em \<notin> {''all'', ''evaluate'', ''eval_evalset''}"
  shows
   "evaluate_model env methods input_fn1 steps feed_fn1 metrics1 name self w
      = (Inr (None, None), self, w) \<and>
    (\<forall>p. get_input_fn (feeder env) x y input_fn feed_fn batch_size False (Some 1) = Inr p \<and>
          metrics \<noteq> Some Not_a_dict \<longrightarrow>
       evaluate env methods x y input_fn feed_fn batch_size steps metrics name self w
         = (Inr None, self, w)) \<and>
    \<not> is_NotFittedError
        (fst (evaluate env methods x y input_fn feed_fn batch_size steps metrics name self w)) \<and>
    snd (evaluate env methods x y input_fn feed_fn batch_size steps metrics name self w) = (self, w)"
proof -
  from assms have ex: "evaluation_excluded (config self)"
    by (simp add: evaluation_excluded_def)
  note em = evaluate_model_excluded [OF ex]
  have a: "evaluate env methods x y input_fn feed_fn batch_size steps metrics name self w
         = (Inr None, self, w)"
    if "get_input_fn (feeder env) x y input_fn feed_fn batch_size False (Some 1) = Inr p \<and>
          metrics \<noteq> Some Not_a_dict" for p
    using that
    by (cases p) (simp add: evaluate_def em split: option.split metrics_arg.split)
  have b: "\<not> is_NotFittedError
        (fst (evaluate env methods x y input_fn feed_fn batch_size steps metrics name self w)) \<and>
    snd (evaluate env methods x y input_fn feed_fn batch_size steps metrics name self w) = (self, w)"
  proof (cases "get_input_fn (feeder env) x y input_fn feed_fn batch_size False (Some 1)")
    case (Inl e)
    with get_input_fn_raises_ValueError [OF Inl] show ?thesis
      by (auto simp add: evaluate_def)
  next
    case (Inr p)
    then show ?thesis
      by (cases p) (simp add: evaluate_def em split: option.split metrics_arg.split)
  qed
  from em a b show ?thesis by blast
qed

theorem evaluate_excluded_returns_None_witness:
  "evaluate example_env (Estimator_methods example_env) None None (Some example_input_fn)
     None None None None None (example_estimator (Some ''train'') mode_model) unfit_world
   = (Inr None, example_estimator (Some ''train'') mode_model, unfit_world)"
proof -
  let ?self = "example_estimator (Some ''train'') mode_model"
  have 1: "execution_mode (config ?self) = Some ''train''"
    by (simp add: example_estimator_def example_config_def)
  have 2: "''train'' \<notin> {''all'', ''evaluate'', ''eval_evalset''}"
    by simp
  have 3: "get_input_fn (feeder example_env) None None (Some example_input_fn) None None False (Some 1)
             = Inr (example_input_fn, None) \<and>
           (None :: example_value metrics_arg option) \<noteq> Some Not_a_dict"
    by (simp add: get_input_fn_def)
  from evaluate_excluded_returns_None [OF 1 2, THEN conjunct2, THEN conjunct1, THEN spec, THEN mp, OF 3]
  show ?thesis .
qed

text \<open>
  Claim C1, as amended. Let there be no checkpoint in the model directory
  (\<^verbatim>\<open>saver.latest_checkpoint\<close> returns \<^verbatim>\<open>None\<close> or an empty path). A call of
  \<^verbatim>\<open>evaluate\<close> whose arguments pass the input adapter and the test of \<^verbatim>\<open>metrics\<close>,
  on an estimator whose execution mode does not exclude evaluation, raises NotFittedError;
  so does a call of \<^verbatim>\<open>predict\<close> whose arguments pass the input adapter. The estimator is
  unchanged and the only thing that has happened in the world is the lookup of the latest
  checkpoint: no graph has been built.
\<close>

theorem not_fitted_without_checkpoint:
  assumes "falsy (checkpoints w (model_dir self))"
  shows
   "(\<forall>p. get_input_fn (feeder env) x y input_fn feed_fn batch_size False (Some 1) = Inr p \<and>
         metrics \<noteq> Some Not_a_dict \<and> \<not> evaluation_excluded (config self) \<longrightarrow>
       evaluate env methods x y input_fn feed_fn batch_size steps metrics name self w =
         (Inl (NotFittedError (''Couldn'' @ [CHR 0x27] @ ''t find trained model at %s.'')), self,
          w\<lparr>trace := Latest_checkpoint (model_dir self) # trace w\<rparr>)) \<and>
    (\<forall>p. get_input_fn (feeder env) x None input_fn None batch_size False (Some 1) = Inr p \<longrightarrow>
       predict env methods x input_fn batch_size outputs as_iterable self w =
         (Inl (NotFittedError (''Couldn'' @ [CHR 0x27] @ ''t find trained model at %s.'')), self,
          w\<lparr>trace := Latest_checkpoint (model_dir self) # trace w\<rparr>))"
proof (intro conjI allI impI)
  fix p
  assume h: "get_input_fn (feeder env) x y input_fn feed_fn batch_size False (Some 1) = Inr p \<and>
         metrics \<noteq> Some Not_a_dict \<and> \<not> evaluation_excluded (config self)"
  then have nf: "\<And>input_fn steps feed_fn metrics name.
     evaluate_model env methods input_fn steps feed_fn metrics name self w =
       (Inl (NotFittedError (''Couldn'' @ [CHR 0x27] @ ''t find trained model at %s.'')), self,
        w\<lparr>trace := Latest_checkpoint (model_dir self) # trace w\<rparr>)"
    using evaluate_model_not_fitted [OF _ assms] by blast
  from h show "evaluate env methods x y input_fn feed_fn batch_size steps metrics name self w =
         (Inl (NotFittedError (''Couldn'' @ [CHR 0x27] @ ''t find trained model at %s.'')), self,
          w\<lparr>trace := Latest_checkpoint (model_dir self) # trace w\<rparr>)"
    by (cases p) (simp add: evaluate_def nf split: option.split metrics_arg.split)
next
  fix p
  assume "get_input_fn (feeder env) x None input_fn None batch_size False (Some 1) = Inr p"
  then show "predict env methods x input_fn batch_size outputs as_iterable self w =
         (Inl (NotFittedError (''Couldn'' @ [CHR 0x27] @ ''t find trained model at %s.'')), self,
          w\<lparr>trace := Latest_checkpoint (model_dir self) # trace w\<rparr>)"
    by (cases p) (simp add: predict_def infer_model_not_fitted [OF assms])
qed

theorem not_fitted_without_checkpoint_witness:
  "evaluate example_env (Estimator_methods example_env) None None (Some example_input_fn)
     None None None None None (example_estimator None mode_model) unfit_world
   = (Inl (NotFittedError (''Couldn'' @ [CHR 0x27] @ ''t find trained model at %s.'')),
      example_estimator None mode_model,
      unfit_world\<lparr>trace := Latest_checkpoint (model_dir (example_estimator None mode_model))
                            # trace unfit_world\<rparr>) \<and>
   predict example_env (Estimator_methods example_env) None (Some example_input_fn) None None True
     (example_estimator (Some ''train'') mode_model) unfit_world
   = (Inl (NotFittedError (''Couldn'' @ [CHR 0x27] @ ''t find trained model at %s.'')),
      example_estimator (Some ''train'') mode_model,
      unfit_world\<lparr>trace := Latest_checkpoint (model_dir (example_estimator (Some ''train'') mode_model))
                            # trace unfit_world\<rparr>)"
proof -
  have 1: "falsy (checkpoints unfit_world (model_dir (example_estimator em mode_model)))" for em
    by (simp add: falsy_def unfit_world_def)
  have 2: "get_input_fn (feeder example_env) None None (Some example_input_fn) None None False (Some 1)
             = Inr (example_input_fn, None) \<and>
           (None :: example_value metrics_arg option) \<noteq> Some Not_a_dict \<and>
           \<not> evaluation_excluded (config (example_estimator None mode_model))"
    by (simp add: get_input_fn_def evaluation_excluded_def example_estimator_def example_config_def)
  have 3: "get_input_fn (feeder example_env) None None (Some example_input_fn) None None False (Some 1)
             = Inr (example_input_fn, None)"
    by (simp add: get_input_fn_def)
  from not_fitted_without_checkpoint [OF 1, THEN conjunct1, THEN spec, THEN mp, OF 2]
       not_fitted_without_checkpoint [OF 1, THEN conjunct2, THEN spec, THEN mp, OF 3]
  show ?thesis by (rule conjI)
qed

text \<open>
  Claim C1 as stated fails: on an estimator whose configuration has the execution mode
  \<open>train\<close>, with no checkpoint in the model directory, \<^verbatim>\<open>evaluate\<close> returns
  \<^verbatim>\<open>None\<close> and raises nothing.
\<close>

theorem not_fitted_counterexample:
  "falsy (checkpoints unfit_world (model_dir (example_estimator (Some ''train'') mode_model))) \<and>
   evaluate example_env (Estimator_methods example_env) None None (Some example_input_fn)
     None None None None None (example_estimator (Some ''train'') mode_model) unfit_world
   = (Inr None, example_estimator (Some ''train'') mode_model, unfit_world)"
  by (simp add: falsy_def unfit_world_def evaluate_def get_input_fn_def evaluate_model_def
        evaluation_excluded_def example_estimator_def example_config_def)

subsection \<open>The metrics assembler\<close>

lemma map_of_maybe_add_streaming_mean:
  "map_of (maybe_add_streaming_mean eng result k v) key =
     (case map_of result key of
        Some m \<Rightarrow> Some m
      | None \<Rightarrow> if key = k then Some (streaming_mean eng v) else None)"
  by (auto simp add: maybe_add_streaming_mean_def update_conv' split: option.splits)

lemma map_of_fold_maybe_add_streaming_mean:
  "map_of (fold (\<lambda>(k, v) r. maybe_add_streaming_mean eng r (Name k) (Some v)) d result) key =
     (case map_of result key of
        Some m \<Rightarrow> Some m
      | None \<Rightarrow>
          (case key of
             Name n \<Rightarrow> map_option (\<lambda>v. streaming_mean eng (Some v)) (map_of d n)
           | Names ns \<Rightarrow> None))"
proof (induction d arbitrary: result)
  case Nil
  then show ?case by (simp split: option.split metric_key.split)
next
  case (Cons kv d)
  obtain k v where kv: "kv = (k, v)" by (cases kv)
  show ?case
    unfolding kv
    by (simp add: Cons.IH map_of_maybe_add_streaming_mean split: option.split metric_key.split)
qed

text \<open>
  Claim C7. Let the model function have been called in EVAL mode and the metrics have been
  made from the \<^verbatim>\<open>metrics\<close> argument. The dictionary \<^verbatim>\<open>_get_eval_ops\<close> returns keeps
  every entry of the metrics; it has the streaming mean of the loss under \<open>loss\<close> unless
  the metrics have an entry there; and it has the streaming mean of each named prediction
  under the name of the prediction (of a single prediction under \<open>predictions\<close>) unless
  an entry is there already. An entry is never overwritten: a prediction whose name the
  metrics use, or that is named \<open>loss\<close>, is skipped. There are no other entries.
\<close>

theorem eval_ops_streaming_means:
  assumes "call_model_fn tf self features targets EVAL = Inr (predictions, loss, train_op)"
    and "make_metrics_ops metrics features targets predictions = Inr user_result"
  shows
   "\<exists>result. Estimator_get_eval_ops tf eng self features targets metrics = Inr result \<and>
      (\<forall>key. map_of result key =
         (case map_of user_result key of
            Some m \<Rightarrow> Some m
          | None \<Rightarrow>
              if key = Name ''loss'' then Some (streaming_mean eng loss)
              else (case predictions of
                      None \<Rightarrow> None
                    | Some (Tensor p) \<Rightarrow>
                        if key = Name ''predictions'' then Some (streaming_mean eng (Some p))
                        else None
                    | Some (Dict d) \<Rightarrow>
                        (case key of
                           Name n \<Rightarrow> map_option (\<lambda>v. streaming_mean eng (Some v)) (map_of d n)
                         | Names ns \<Rightarrow> None))))"
proof (cases predictions)
  case None
  with assms show ?thesis
    by (simp add: Estimator_get_eval_ops_def map_of_maybe_add_streaming_mean split: option.split)
next
  case (Some ps)
  show ?thesis
  proof (cases ps)
    case (Tensor p)
    with Some assms show ?thesis
      by (simp add: Estimator_get_eval_ops_def map_of_maybe_add_streaming_mean split: option.split)
  next
    case (Dict d)
    with Some assms show ?thesis
      by (simp add: Estimator_get_eval_ops_def map_of_maybe_add_streaming_mean
            map_of_fold_maybe_add_streaming_mean split: option.split metric_key.split)
  qed
qed

theorem eval_ops_streaming_means_witness:
  "(\<exists>result.
     Estimator_get_eval_ops example_tf example_engine
       (example_estimator None (shape_model (TensorShape (Some []))))
       (Tensor (T ''x'' scalar)) None
       (Some [(Name ''accuracy'', MetricSpec (\<lambda>f t p. Value (T ''accuracy'' (TensorShape (Some [])))))])
     = Inr result \<and>
     map_of result (Name ''accuracy'') = Some (Value (T ''accuracy'' (TensorShape (Some [])))) \<and>
     map_of result (Name ''loss'')
       = Some (Sequence [T ''mean/loss'' (TensorShape (Some [])), Op ''update/loss'']) \<and>
     map_of result (Name ''classes'')
       = Some (Sequence [T ''mean/argmax'' (TensorShape (Some [])), Op ''update/argmax'']) \<and>
     map_of result (Name ''predictions'') = None) \<and>
   (\<exists>result.
     Estimator_get_eval_ops example_tf example_engine (example_estimator None loss_named_model)
       (Tensor (T ''x'' scalar)) None None
     = Inr result \<and>
     map_of result (Name ''loss'')
       = Some (Sequence [T ''mean/xent'' (TensorShape (Some [])), Op ''update/xent'']))"
proof -
  let ?self = "example_estimator None (shape_model (TensorShape (Some [])))"
  let ?x = "Tensor (T ''x'' scalar)"
  let ?metrics = "Some [(Name ''accuracy'',
                         MetricSpec (\<lambda>f t p. Value (T ''accuracy'' (TensorShape (Some [])))))]"
  let ?predictions = "Some (Dict [(''classes'', T ''argmax'' (TensorShape (Some [None])))])"
  have 1: "call_model_fn example_tf ?self ?x None EVAL
             = Inr (?predictions, Some (T ''loss'' (TensorShape (Some []))), Some (Op ''train''))"
    by (simp add: call_model_fn_def shape_model_def example_estimator_def model_fn_call_def
          identity_feature_engineering_fn_def validate_train_op_def validate_loss_def
          validate_predictions_def example_tf_def num_elements_def is_compatible_with_def scalar_def)
  have 2: "make_metrics_ops ?metrics ?x None ?predictions
             = Inr [(Name ''accuracy'', Value (T ''accuracy'' (TensorShape (Some []))))]"
    by (simp add: make_metrics_ops_def make_metric_op_def)
  from eval_ops_streaming_means [OF 1 2, of example_engine]
  obtain result where r: "Estimator_get_eval_ops example_tf example_engine ?self ?x None ?metrics = Inr result"
    and k: "\<And>key. map_of result key =
         (case map_of [(Name ''accuracy'', Value (T ''accuracy'' (TensorShape (Some []))))] key of
            Some m \<Rightarrow> Some m
          | None \<Rightarrow>
              if key = Name ''loss''
              then Some (streaming_mean example_engine (Some (T ''loss'' (TensorShape (Some [])))))
              else (case ?predictions of
                      None \<Rightarrow> None
                    | Some (Tensor p) \<Rightarrow>
                        if key = Name ''predictions''
                        then Some (streaming_mean example_engine (Some p)) else None
                    | Some (Dict d) \<Rightarrow>
                        (case key of
                           Name n \<Rightarrow> map_option (\<lambda>v. streaming_mean example_engine (Some v)) (map_of d n)
                         | Names ns \<Rightarrow> None)))"
    by blast
  have "map_of result (Name ''accuracy'') = Some (Value (T ''accuracy'' (TensorShape (Some []))))"
    and "map_of result (Name ''loss'')
       = Some (Sequence [T ''mean/loss'' (TensorShape (Some [])), Op ''update/loss''])"
    and "map_of result (Name ''classes'')
       = Some (Sequence [T ''mean/argmax'' (TensorShape (Some [])), Op ''update/argmax''])"
    and "map_of result (Name ''predictions'') = None"
    by (simp_all add: k example_engine_def)
  with r have first: "\<exists>result.
     Estimator_get_eval_ops example_tf example_engine ?self ?x None ?metrics = Inr result \<and>
     map_of result (Name ''accuracy'') = Some (Value (T ''accuracy'' (TensorShape (Some [])))) \<and>
     map_of result (Name ''loss'')
       = Some (Sequence [T ''mean/loss'' (TensorShape (Some [])), Op ''update/loss'']) \<and>
     map_of result (Name ''classes'')
       = Some (Sequence [T ''mean/argmax'' (TensorShape (Some [])), Op ''update/argmax'']) \<and>
     map_of result (Name ''predictions'') = None"
    by blast
  let ?self2 = "example_estimator None loss_named_model"
  let ?predictions2 = "Some (Dict [(''loss'', T ''logits'' (TensorShape (Some [None])))])"
  have 3: "call_model_fn example_tf ?self2 ?x None EVAL
             = Inr (?predictions2, Some (T ''xent'' (TensorShape (Some []))), None)"
    by (simp add: call_model_fn_def loss_named_model_def example_estimator_def model_fn_call_def
          identity_feature_engineering_fn_def validate_train_op_def validate_loss_def
          validate_predictions_def example_tf_def num_elements_def is_compatible_with_def scalar_def)
  have 4: "make_metrics_ops None ?x None ?predictions2
             = (Inr [] :: error + (metric_key \<times> example_value metric_result) list)"
    by (simp add: make_metrics_ops_def)
  from eval_ops_streaming_means [OF 3 4, of example_engine]
  obtain result2
    where r2: "Estimator_get_eval_ops example_tf example_engine ?self2 ?x None None = Inr result2"
    and k2: "map_of result2 (Name ''loss'')
               = Some (streaming_mean example_engine (Some (T ''xent'' (TensorShape (Some [])))))"
    by auto
  from k2 have "map_of result2 (Name ''loss'')
       = Some (Sequence [T ''mean/xent'' (TensorShape (Some [])), Op ''update/xent''])"
    by (simp add: example_engine_def)
  with r2 have second: "\<exists>result.
     Estimator_get_eval_ops example_tf example_engine ?self2 ?x None None = Inr result \<and>
     map_of result (Name ''loss'')
       = Some (Sequence [T ''mean/xent'' (TensorShape (Some [])), Op ''update/xent''])"
    by blast
  from first second show ?thesis by (rule conjI)
qed

subsection \<open>Streaming prediction\<close>

lemma unpack_rows_ok:
  "(\<forall>(key, v) \<in> set output_batch. \<forall>i \<in> set is. i < length v) \<Longrightarrow>
     unpack_rows output_batch is =
       (map (\<lambda>i. Item_dict (map (\<lambda>(key, v). (key, v ! i)) output_batch)) is, None)"
proof (induction "is")
  case Nil
  then show ?case by simp
next
  case (Cons i "is")
  then have 1: "\<not> list_ex (\<lambda>(key, v). length v \<le> i) output_batch"
    by (auto simp add: list_ex_iff)
  from Cons.prems have "\<forall>(key, v) \<in> set output_batch. \<forall>i \<in> set is. i < length v"
    by auto
  from Cons.IH [OF this] 1 show ?case by simp
qed

lemma unpack_batch_ok:
  assumes "if return_dict
           then output_batch \<noteq> [] \<and>
                (\<forall>(key, v) \<in> set output_batch. length (snd (hd output_batch)) \<le> length v)
           else map_of output_batch ''predictions'' \<noteq> None"
  shows "snd (unpack_batch return_dict output_batch) = None"
proof (cases return_dict)
  case True
  with assms obtain key v rest where b: "output_batch = (key, v) # rest"
    by (cases output_batch) auto
  from True assms b
  have "\<forall>(key', v') \<in> set output_batch. \<forall>i \<in> set [0..<length v]. i < length v'"
    by auto
  from unpack_rows_ok [OF this] True b show ?thesis
    by (simp add: unpack_batch_def)
next
  case False
  with assms show ?thesis
    by (auto simp add: unpack_batch_def getitem_def)
qed

lemma iterate_batches_ok:
  "(\<forall>b \<in> set batches. snd (unpack_batch return_dict b) = None) \<Longrightarrow>
     iterate_batches return_dict batches e =
       (concat (map (\<lambda>b. fst (unpack_batch return_dict b)) batches),
        if e = Raised OutOfRangeError then StopIteration else e)"
proof (induction batches)
  case Nil
  then show ?case by simp
next
  case (Cons b batches)
  then show ?case
    by (cases "unpack_batch return_dict b") simp
qed

lemma iterate_batches_end:
  assumes "e = StopIteration \<or> e = Raised OutOfRangeError"
  shows "snd (iterate_batches return_dict batches e) = StopIteration \<or>
         (\<exists>b \<in> set batches. \<exists>err. snd (unpack_batch return_dict b) = Some err \<and>
            snd (iterate_batches return_dict batches e) = Raised err \<and> err \<noteq> OutOfRangeError)"
proof (induction batches)
  case Nil
  from assms show ?case by auto
next
  case (Cons b batches)
  obtain items r where u: "unpack_batch return_dict b = (items, r)"
    by (cases "unpack_batch return_dict b")
  show ?case
  proof (cases r)
    case None
    with u Cons show ?thesis
      by (auto split: prod.splits)
  next
    case (Some err)
    with u show ?thesis by simp
  qed
qed

text \<open>
  Claim C8. Let the engine's generator end by exhaustion of the input: it stops because the
  feed sequence has stopped, or it raises \<^verbatim>\<open>OutOfRangeError\<close>. Then the generator of
  \<^verbatim>\<open>_infer_model_as_iterable\<close> never ends with \<^verbatim>\<open>OutOfRangeError\<close>: it ends normally,
  unless unpacking one of the batches raised before the end of the input was reached. When
  every batch can be unpacked (with \<^verbatim>\<open>return_dict\<close>: the batch is not empty and no value
  is shorter than the first; otherwise: the batch has the key \<open>predictions\<close>), it
  yields the items of all the batches in order and ends normally.
\<close>

theorem streaming_prediction_ends_normally:
  assumes "run_feeds_iter eng predictions
             (case feed_fn of None \<Rightarrow> Repeat_None | Some fd \<Rightarrow> Feed_fn_calls fd) checkpoint_path
           = (batches, e)"
    and "e = StopIteration \<or> e = Raised OutOfRangeError"
  shows
   "(snd (infer_model_as_iterable eng checkpoint_path predictions feed_fn return_dict) = StopIteration \<or>
     (\<exists>b \<in> set batches. \<exists>err. snd (unpack_batch return_dict b) = Some err \<and>
        snd (infer_model_as_iterable eng checkpoint_path predictions feed_fn return_dict) = Raised err \<and>
        err \<noteq> OutOfRangeError)) \<and>
    ((\<forall>b \<in> set batches.
        if return_dict
        then b \<noteq> [] \<and> (\<forall>(key, v) \<in> set b. length (snd (hd b)) \<le> length v)
        else map_of b ''predictions'' \<noteq> None) \<longrightarrow>
     infer_model_as_iterable eng checkpoint_path predictions feed_fn return_dict =
       (concat (map (\<lambda>b. fst (unpack_batch return_dict b)) batches), StopIteration))"
proof -
  have g: "infer_model_as_iterable eng checkpoint_path predictions feed_fn return_dict
           = iterate_batches return_dict batches e"
    using assms(1) by (simp add: infer_model_as_iterable_def)
  have a: "snd (iterate_batches return_dict batches e) = StopIteration \<or>
     (\<exists>b \<in> set batches. \<exists>err. snd (unpack_batch return_dict b) = Some err \<and>
        snd (iterate_batches return_dict batches e) = Raised err \<and> err \<noteq> OutOfRangeError)"
    by (rule iterate_batches_end [OF assms(2)])
  have b: "iterate_batches return_dict batches e =
       (concat (map (\<lambda>b. fst (unpack_batch return_dict b)) batches), StopIteration)"
    if wf: "\<forall>b \<in> set batches.
        if return_dict
        then b \<noteq> [] \<and> (\<forall>(key, v) \<in> set b. length (snd (hd b)) \<le> length v)
        else map_of b ''predictions'' \<noteq> None"
  proof -
    from wf have "\<forall>b \<in> set batches. snd (unpack_batch return_dict b) = None"
      using unpack_batch_ok by blast
    from iterate_batches_ok [OF this] assms(2) show ?thesis
      by auto
  qed
  from a b show ?thesis
    unfolding g by blast
qed

theorem streaming_prediction_ends_normally_witness:
  "infer_model_as_iterable example_engine ''model.ckpt-1''
     [(''predictions'', Some (T ''p'' (TensorShape (Some [None]))))] None False
   = ([Item 1, Item 2, Item 3, Item 4], StopIteration)"
proof -
  let ?predictions = "[(''predictions'', Some (T ''p'' (TensorShape (Some [None]))))]"
  let ?batches = "[[(''predictions'', [1, 2 :: nat])], [(''predictions'', [3, 4])]]"
  have 1: "run_feeds_iter example_engine ?predictions
             (case (None :: string option) of None \<Rightarrow> Repeat_None | Some fd \<Rightarrow> Feed_fn_calls fd)
             ''model.ckpt-1''
           = (?batches, Raised OutOfRangeError)"
    by (simp add: example_engine_def)
  have 2: "Raised OutOfRangeError = StopIteration \<or> Raised OutOfRangeError = Raised OutOfRangeError"
    by simp
  have 3: "\<forall>b \<in> set ?batches.
        if False
        then b \<noteq> [] \<and> (\<forall>(key, v) \<in> set b. length (snd (hd b)) \<le> length v)
        else map_of b ''predictions'' \<noteq> None"
    by simp
  from streaming_prediction_ends_normally [OF 1 2, of False, THEN conjunct2, THEN mp, OF 3]
  show ?thesis
    by (simp add: unpack_batch_def getitem_def)
qed

end
